theory Spec2Isabelle
  imports Main "HOL-Library.Multiset"
begin

section \<open>Abstract syntax produced by the generator\<close>

text \<open>
  The generator builds TypeScript syntax trees through the compiler's factory functions
  (\<^verbatim>\<open>createTypeReferenceNode\<close>, \<^verbatim>\<open>createUnionTypeNode\<close>, ...). Printing the trees
  is left to the TypeScript printer. Each factory function used by the sources is a
  constructor here; type arguments, decorators and initialisers are always empty in the
  sources and are left out.
\<close>

datatype SyntaxKind = NeverKeyword

datatype TypeNode =
    TypeReferenceNode string
  | TypeLiteralNode "PropertySignature list"
  | UnionTypeNode "TypeNode list"
  | IntersectionTypeNode "TypeNode list"
  | ParenthesizedType TypeNode
  | KeywordTypeNode SyntaxKind
  | ArrayTypeNode TypeNode
  | LiteralTypeNode string
and PropertySignature =
    PropertySignature (sig_comment: "string option") (sig_name: string)
      (sig_questionToken: bool) (sig_type: TypeNode)

datatype EnumMember =
    EnumMember (mem_comment: "string option") (mem_name: string) (mem_initializer: string)

datatype Statement =
    TypeAliasDeclaration (decl_comment: "string option") (decl_exported: bool)
      (decl_name: string) (decl_type: TypeNode)
  | EnumDeclaration (decl_comment: "string option") (decl_exported: bool)
      (decl_name: string) (decl_members: "EnumMember list")

section \<open>Errors and host functions\<close>

text \<open>
  A JavaScript exception is a value: \<open>Error msg\<close> for \<^verbatim>\<open>throw new Error(msg)\<close> and
  \<open>RangeError\<close> for an exhausted call stack. A function that can throw returns
  \<open>error + 'a\<close>, with \<open>Inl\<close> the exception.
\<close>

datatype error = Error string | RangeError

fun mapE :: "('a \<Rightarrow> error + 'b) \<Rightarrow> 'a list \<Rightarrow> error + 'b list" where
  "mapE f [] = Inr []"
| "mapE f (x # xs) =
     (case f x of
        Inl e \<Rightarrow> Inl e
      | Inr y \<Rightarrow> (case mapE f xs of Inl e \<Rightarrow> Inl e | Inr ys \<Rightarrow> Inr (y # ys)))"

text \<open>
  \<^verbatim>\<open>Array.prototype.sort(compare)\<close> is the host's. It is stable; the model is the stable
  insertion sort, which every stable sort agrees with when \<open>compare\<close> is a total preorder.
  \<^verbatim>\<open>String.prototype.localeCompare\<close> is the host's too and depends on its locale: the
  functions that call it take it as the parameter \<open>localeCompare\<close>.
\<close>

fun insort_cmp :: "('a \<Rightarrow> 'a \<Rightarrow> int) \<Rightarrow> 'a \<Rightarrow> 'a list \<Rightarrow> 'a list" where
  "insort_cmp compare x [] = [x]"
| "insort_cmp compare x (y # ys) =
     (if compare x y \<le> 0 then x # y # ys else y # insort_cmp compare x ys)"

definition sort_cmp :: "('a \<Rightarrow> 'a \<Rightarrow> int) \<Rightarrow> 'a list \<Rightarrow> 'a list" where
  "sort_cmp compare xs = foldr (insort_cmp compare) xs []"

fun join :: "string \<Rightarrow> string list \<Rightarrow> string" where
  "join sep [] = []"
| "join sep [x] = x"
| "join sep (x # y # ys) = x @ sep @ join sep (y # ys)"

section \<open>Subjects and names (src/ts/util/names.ts)\<close>

text \<open>
  The node classes of \<^verbatim>\<open>triples/types\<close> are not among the sources. A subject is
  represented by what the code reads off it: its \<^verbatim>\<open>type\<close> tag, its \<^verbatim>\<open>name\<close>
  (null when the URL has none), its \<^verbatim>\<open>href\<close> or blank-node \<^verbatim>\<open>id\<close>, and the results of
  \<^verbatim>\<open>toString()\<close> and \<^verbatim>\<open>toHumanString()\<close>. The message of the last error of
  \<^verbatim>\<open>toClassName\<close> ends with \<^verbatim>\<open>JSON.stringify(subject)\<close>, which is left out.
\<close>

datatype NodeType = UrlNode | BlankNode | OtherNode

record TSubject =
  node_type :: NodeType
  node_name :: "string option"
  href :: string
  blank_id :: string
  toString :: string
  toHumanString :: string

definition nameFromUrl :: "TSubject \<Rightarrow> error + string" where
  "nameFromUrl node =
     (case node_name node of
        None \<Rightarrow> Inl (Error (''URL required for node '' @ href node @ ''.''))
      | Some n \<Rightarrow> Inr n)"

definition toClassName :: "TSubject \<Rightarrow> error + string" where
  "toClassName subject =
     (case node_type subject of
        UrlNode \<Rightarrow> nameFromUrl subject
      | BlankNode \<Rightarrow>
          Inl (Error (''Did not expect a BlankNode to be a Class. '' @ blank_id subject))
      | OtherNode \<Rightarrow> Inl (Error ''Unrecognized''))"

section \<open>Classes (src/ts/class.ts)\<close>

text \<open>
  \<^verbatim>\<open>Class\<close> objects are mutable and refer to each other (\<^verbatim>\<open>parents\<close>, \<^verbatim>\<open>children\<close>,
  \<^verbatim>\<open>_supersededBy\<close>), so they live in an explicit store: a heap from references to
  objects. \<open>kind\<close> records the run-time class of the object, which is what
  \<^verbatim>\<open>instanceof Builtin\<close> tests, with the fields that \<^verbatim>\<open>Builtin\<close> and \<^verbatim>\<open>BooleanEnum\<close>
  add; \<^verbatim>\<open>BooleanEnum\<close> extends \<^verbatim>\<open>Builtin\<close>.

  \<^verbatim>\<open>Property\<close>, \<^verbatim>\<open>TypeProperty\<close> and \<^verbatim>\<open>EnumValue\<close> of this version (\<^verbatim>\<open>./property\<close>,
  \<^verbatim>\<open>./enum\<close>) are not among the sources. A property carries what \<^verbatim>\<open>Class\<close> reads:
  its \<^verbatim>\<open>key\<close>, its \<^verbatim>\<open>deprecated\<close> flag and the signature its \<^verbatim>\<open>toNode(context)\<close>
  renders; an enum value carries its \<^verbatim>\<open>value\<close> and the member its \<^verbatim>\<open>toNode()\<close> renders.
\<close>

type_synonym ref = nat

datatype ClassKind =
    ClassK
  | BuiltinK (k_equivTo: string) (k_doc: string)
  | BooleanEnumK (k_trueUrl: string) (k_falseUrl: string) (k_enum_doc: string)

record Property =
  key :: TSubject
  deprecated :: bool
  rendered :: PropertySignature

record EnumValue =
  enum_value :: TSubject
  enum_rendered :: EnumMember

record Class =
  kind :: ClassKind
  subject :: TSubject
  u_comment :: "string option"
  children :: "ref list"
  parents :: "ref list"
  u_props :: "Property list"
  u_enums :: "EnumValue list"
  u_supersededBy :: "ref list"

type_synonym heap = "ref \<Rightarrow> Class"

type_synonym ClassMap = "string \<Rightarrow> ref option"

definition instanceofBuiltin :: "Class \<Rightarrow> bool" where
  "instanceofBuiltin c = (kind c \<noteq> ClassK)"

text \<open>
  \<^verbatim>\<open>properties()\<close> returns \<^verbatim>\<open>TypeProperty\<close> and \<^verbatim>\<open>Property\<close> objects in one array.
\<close>

datatype PropertyLike = TypeProperty TSubject | OwnProperty Property

text \<open>
  Modelled from the spec: the \<^verbatim>\<open>deprecated\<close> field of \<^verbatim>\<open>TypeProperty\<close>, whose class
  (\<^verbatim>\<open>./property\<close>) is missing from the sources. By section 4.6 of the specification the
  discriminant is an implicit structural field injected into every leaf, and by section 3
  the deprecated flag belongs to properties of the ontology: the discriminant is never
  deprecated.
\<close>

fun pl_deprecated :: "PropertyLike \<Rightarrow> bool" where
  "pl_deprecated (TypeProperty s) = False"
| "pl_deprecated (OwnProperty p) = deprecated p"

text \<open>
  Modelled from the spec: \<^verbatim>\<open>TypeProperty.toNode\<close>, missing from the sources too. By
  sections 4.3 and 4.6 of the specification the discriminant carries the class's own
  name as a literal string and is single-valued and mandatory. The
  \<^verbatim>\<open>new Property('@type', new StringLiteralType(name))\<close> of lib/toClass.ts renders the
  same signature.
\<close>

fun pl_toNode :: "PropertyLike \<Rightarrow> error + PropertySignature" where
  "pl_toNode (TypeProperty s) =
     (case toClassName s of
        Inl e \<Rightarrow> Inl e
      | Inr n \<Rightarrow> Inr (PropertySignature None ''@type'' False (LiteralTypeNode n)))"
| "pl_toNode (OwnProperty p) = Inr (rendered p)"

text \<open>
  \<^verbatim>\<open>aliasesBuiltin\<close> recurses through the parents. Its first argument is the number of
  stack frames left: JavaScript ends a recursion that is too deep (a cyclic parent
  relation) with a \<^verbatim>\<open>RangeError\<close>.
\<close>

fun aliasesBuiltin :: "nat \<Rightarrow> heap \<Rightarrow> ref \<Rightarrow> error + bool"
  and aliasesBuiltin_for :: "nat \<Rightarrow> heap \<Rightarrow> ref list \<Rightarrow> error + bool" where
  "aliasesBuiltin 0 h this = Inl RangeError"
| "aliasesBuiltin (Suc d) h this = aliasesBuiltin_for d h (parents (h this))"
| "aliasesBuiltin_for d h [] = Inr False"
| "aliasesBuiltin_for d h (parent # rest) =
     (if instanceofBuiltin (h parent) then Inr True
      else (case aliasesBuiltin d h parent of
              Inl e \<Rightarrow> Inl e
            | Inr b \<Rightarrow> if b then Inr True else aliasesBuiltin_for d h rest))"

definition deprecated_class :: "Class \<Rightarrow> bool" where
  "deprecated_class c = (length (u_supersededBy c) > 0)"

definition className :: "Class \<Rightarrow> error + string" where
  "className c = toClassName (subject c)"

definition enumName :: "Class \<Rightarrow> error + string" where
  "enumName c = (case toClassName (subject c) of Inl e \<Rightarrow> Inl e | Inr n \<Rightarrow> Inr (n @ ''Enum''))"

text \<open>
  \<^verbatim>\<open>Builtin\<close> overrides \<^verbatim>\<open>baseName\<close> with \<^verbatim>\<open>subject.name!\<close>. The non-null assertion is
  not checked at run time; a null name is reported as an error value here.
\<close>

definition baseName :: "Class \<Rightarrow> error + string" where
  "baseName c =
     (if instanceofBuiltin c then
        (case node_name (subject c) of
           None \<Rightarrow> Inl (Error ''Builtin without a name'')
         | Some n \<Rightarrow> Inr n)
      else (case toClassName (subject c) of Inl e \<Rightarrow> Inl e | Inr n \<Rightarrow> Inr (n @ ''Base'')))"

definition comment :: "heap \<Rightarrow> ref \<Rightarrow> error + string option" where
  "comment h this =
     (if \<not> deprecated_class (h this) then Inr (u_comment (h this))
      else (case mapE (\<lambda>c. className (h c)) (u_supersededBy (h this)) of
              Inl e \<Rightarrow> Inl e
            | Inr names \<Rightarrow>
                let deprecated = ''@deprecated Use '' @ join '' or '' names @ '' instead.'' in
                (case u_comment (h this) of
                   None \<Rightarrow> Inr (Some deprecated)
                 | Some c \<Rightarrow>
                     if c \<noteq> [] then Inr (Some (c @ [CHR 0x0A] @ deprecated))
                     else Inr (Some deprecated))))"

definition isLeaf :: "nat \<Rightarrow> heap \<Rightarrow> ref \<Rightarrow> error + bool" where
  "isLeaf d h this =
     (if length (children (h this)) = 0 then
        (case aliasesBuiltin d h this of Inl e \<Rightarrow> Inl e | Inr b \<Rightarrow> Inr (\<not> b))
      else Inr False)"

definition CompareKeys :: "(string \<Rightarrow> string \<Rightarrow> int) \<Rightarrow> TSubject \<Rightarrow> TSubject \<Rightarrow> int" where
  "CompareKeys localeCompare a b =
     (let byName = localeCompare (toHumanString a) (toHumanString b) in
      if byName \<noteq> 0 then byName else localeCompare (toString a) (toString b))"

definition Sort :: "(string \<Rightarrow> string \<Rightarrow> int) \<Rightarrow> Class \<Rightarrow> Class \<Rightarrow> int" where
  "Sort localeCompare a b =
     (if instanceofBuiltin a then
        (if instanceofBuiltin b then
           localeCompare (toHumanString (subject a)) (toHumanString (subject b))
         else - 1)
      else if instanceofBuiltin b then 1
      else CompareKeys localeCompare (subject a) (subject b))"

text \<open>
  \<^verbatim>\<open>properties()\<close> sorts \<^verbatim>\<open>_props\<close> in place before it reads \<^verbatim>\<open>isLeaf\<close>, so it returns
  the heap too.
\<close>

definition properties ::
    "(string \<Rightarrow> string \<Rightarrow> int) \<Rightarrow> nat \<Rightarrow> heap \<Rightarrow> ref \<Rightarrow> error + (PropertyLike list \<times> heap)" where
  "properties localeCompare d h this =
     (let h1 = h(this := (h this)\<lparr>u_props :=
                 sort_cmp (\<lambda>a b. CompareKeys localeCompare (key a) (key b)) (u_props (h this))\<rparr>)
      in case isLeaf d h1 this of
           Inl e \<Rightarrow> Inl e
         | Inr leaf \<Rightarrow>
             if leaf then
               Inr (TypeProperty (subject (h1 this)) # map OwnProperty (u_props (h1 this)), h1)
             else Inr (map OwnProperty (u_props (h1 this)), h1))"

definition baseNode ::
    "(string \<Rightarrow> string \<Rightarrow> int) \<Rightarrow> nat \<Rightarrow> bool \<Rightarrow> heap \<Rightarrow> ref \<Rightarrow> error + (TypeNode \<times> heap)" where
  "baseNode localeCompare d skipDeprecatedProperties h this =
     (case properties localeCompare d h this of
        Inl e \<Rightarrow> Inl e
      | Inr (props, h1) \<Rightarrow>
     (case mapE pl_toNode
             (filter (\<lambda>property. \<not> pl_deprecated property \<or> \<not> skipDeprecatedProperties) props) of
        Inl e \<Rightarrow> Inl e
      | Inr members \<Rightarrow>
     (case mapE (\<lambda>parent. baseName (h1 parent)) (parents (h1 this)) of
        Inl e \<Rightarrow> Inl e
      | Inr names \<Rightarrow>
          let propLiteral = TypeLiteralNode members;
              parentTypes = map TypeReferenceNode names;
              parentNode =
                (if length parentTypes = 0 then None
                 else if length parentTypes = 1 then Some (hd parentTypes)
                 else Some (ParenthesizedType (IntersectionTypeNode parentTypes)))
          in (case parentNode of
                Some pn \<Rightarrow>
                  if length members > 0 then Inr (IntersectionTypeNode [pn, propLiteral], h1)
                  else Inr (pn, h1)
              | None \<Rightarrow>
                  if length members > 0 then Inr (propLiteral, h1)
                  else Inr (KeywordTypeNode NeverKeyword, h1)))))"

definition baseDecl ::
    "(string \<Rightarrow> string \<Rightarrow> int) \<Rightarrow> nat \<Rightarrow> bool \<Rightarrow> heap \<Rightarrow> ref \<Rightarrow> error + (Statement \<times> heap)" where
  "baseDecl localeCompare d skipDeprecatedProperties h this =
     (case baseNode localeCompare d skipDeprecatedProperties h this of
        Inl e \<Rightarrow> Inl e
      | Inr (node, h1) \<Rightarrow>
          (case baseName (h1 this) of
             Inl e \<Rightarrow> Inl e
           | Inr n \<Rightarrow> Inr (TypeAliasDeclaration None False n node, h1)))"

text \<open>
  \<^verbatim>\<open>nonEnumType\<close> sorts \<^verbatim>\<open>children\<close> in place. The literal of its first branch holds
  \<^verbatim>\<open>new TypeProperty(this.subject).toNode(context)\<close>.
\<close>

definition nonEnumType ::
    "(string \<Rightarrow> string \<Rightarrow> int) \<Rightarrow> heap \<Rightarrow> ref \<Rightarrow> error + (TypeNode \<times> heap)" where
  "nonEnumType localeCompare h this =
     (let h1 = h(this := (h this)\<lparr>children :=
                 sort_cmp (\<lambda>a b. CompareKeys localeCompare (subject (h a)) (subject (h b)))
                   (children (h this))\<rparr>)
      in case mapE (\<lambda>child. className (h1 child)) (children (h1 this)) of
           Inl e \<Rightarrow> Inl e
         | Inr names \<Rightarrow>
             let children = map TypeReferenceNode names;
                 childrenNode =
                   (if length children = 0 then None
                    else if length children = 1 then Some (hd children)
                    else Some (ParenthesizedType (UnionTypeNode children)))
             in (case childrenNode of
                   Some cn \<Rightarrow>
                     (case pl_toNode (TypeProperty (subject (h1 this))) of
                        Inl e \<Rightarrow> Inl e
                      | Inr typeProp \<Rightarrow>
                          (case baseName (h1 this) of
                             Inl e \<Rightarrow> Inl e
                           | Inr bn \<Rightarrow>
                               Inr (UnionTypeNode
                                      [IntersectionTypeNode
                                         [TypeLiteralNode [typeProp], TypeReferenceNode bn],
                                       cn], h1)))
                 | None \<Rightarrow>
                     (case baseName (h1 this) of
                        Inl e \<Rightarrow> Inl e
                      | Inr bn \<Rightarrow> Inr (TypeReferenceNode bn, h1))))"

definition totalType ::
    "(string \<Rightarrow> string \<Rightarrow> int) \<Rightarrow> heap \<Rightarrow> ref \<Rightarrow> error + (TypeNode \<times> heap)" where
  "totalType localeCompare h this =
     (let isEnum = length (u_enums (h this)) > 0 in
      if isEnum then
        (case enumName (h this) of
           Inl e \<Rightarrow> Inl e
         | Inr en \<Rightarrow>
             (case nonEnumType localeCompare h this of
                Inl e \<Rightarrow> Inl e
              | Inr (t, h1) \<Rightarrow>
                  Inr (UnionTypeNode [TypeReferenceNode en, ParenthesizedType t], h1)))
      else nonEnumType localeCompare h this)"

definition enumDecl ::
    "(string \<Rightarrow> string \<Rightarrow> int) \<Rightarrow> heap \<Rightarrow> ref \<Rightarrow> error + (Statement option \<times> heap)" where
  "enumDecl localeCompare h this =
     (if length (u_enums (h this)) = 0 then Inr (None, h)
      else
        let h1 = h(this := (h this)\<lparr>u_enums :=
                   sort_cmp (\<lambda>a b. CompareKeys localeCompare (enum_value a) (enum_value b))
                     (u_enums (h this))\<rparr>)
        in (case enumName (h1 this) of
              Inl e \<Rightarrow> Inl e
            | Inr en \<Rightarrow>
                Inr (Some (EnumDeclaration None True en (map enum_rendered (u_enums (h1 this)))),
                     h1)))"

text \<open>
  \<^verbatim>\<open>arrayOf\<close> drops the absent enum declaration; \<^verbatim>\<open>withComments\<close> attaches the comment to
  the declaration. JavaScript evaluates \<^verbatim>\<open>totalType\<close>, the \<^verbatim>\<open>comment\<close> getter,
  \<^verbatim>\<open>className\<close>, \<^verbatim>\<open>enumDecl\<close> and \<^verbatim>\<open>baseDecl\<close> in this order.
\<close>

definition arrayOf :: "'a option list \<Rightarrow> 'a list" where
  "arrayOf args = concat (map (\<lambda>elem. case elem of None \<Rightarrow> [] | Some x \<Rightarrow> [x]) args)"

definition Class_toNode ::
    "(string \<Rightarrow> string \<Rightarrow> int) \<Rightarrow> nat \<Rightarrow> bool \<Rightarrow> heap \<Rightarrow> ref \<Rightarrow> error + (Statement list \<times> heap)" where
  "Class_toNode localeCompare d skipDeprecatedProperties h this =
     (case totalType localeCompare h this of
        Inl e \<Rightarrow> Inl e
      | Inr (typeValue, h1) \<Rightarrow>
     (case comment h1 this of
        Inl e \<Rightarrow> Inl e
      | Inr c \<Rightarrow>
     (case className (h1 this) of
        Inl e \<Rightarrow> Inl e
      | Inr cn \<Rightarrow>
     (case enumDecl localeCompare h1 this of
        Inl e \<Rightarrow> Inl e
      | Inr (ed, h2) \<Rightarrow>
     (case baseDecl localeCompare d skipDeprecatedProperties h2 this of
        Inl e \<Rightarrow> Inl e
      | Inr (bd, h3) \<Rightarrow>
          Inr (arrayOf [ed, Some bd, Some (TypeAliasDeclaration c True cn typeValue)], h3))))))"

text \<open>
  \<^verbatim>\<open>Builtin\<close> and \<^verbatim>\<open>BooleanEnum\<close> override \<^verbatim>\<open>toNode\<close>: an alias of the target type, or an
  enumeration of the two truth values, with the fixed documentation as comment. A call of
  \<^verbatim>\<open>toNode\<close> runs the method of the object's run-time class.
\<close>

definition Builtin_toNode :: "string \<Rightarrow> string \<Rightarrow> Class \<Rightarrow> error + Statement list" where
  "Builtin_toNode equivTo doc c =
     (case baseName c of
        Inl e \<Rightarrow> Inl e
      | Inr bn \<Rightarrow> Inr [TypeAliasDeclaration (Some doc) True bn (TypeReferenceNode equivTo)])"

definition BooleanEnum_toNode ::
    "string \<Rightarrow> string \<Rightarrow> string \<Rightarrow> Class \<Rightarrow> error + Statement list" where
  "BooleanEnum_toNode trueUrl falseUrl doc c =
     (case baseName c of
        Inl e \<Rightarrow> Inl e
      | Inr bn \<Rightarrow>
          Inr [EnumDeclaration (Some doc) True bn
                 [EnumMember None ''True'' trueUrl, EnumMember None ''False'' falseUrl]])"

definition toNode ::
    "(string \<Rightarrow> string \<Rightarrow> int) \<Rightarrow> nat \<Rightarrow> bool \<Rightarrow> heap \<Rightarrow> ref \<Rightarrow> error + (Statement list \<times> heap)" where
  "toNode localeCompare d skipDeprecatedProperties h this =
     (case kind (h this) of
        ClassK \<Rightarrow> Class_toNode localeCompare d skipDeprecatedProperties h this
      | BuiltinK equivTo doc \<Rightarrow>
          (case Builtin_toNode equivTo doc (h this) of
             Inl e \<Rightarrow> Inl e
           | Inr nodes \<Rightarrow> Inr (nodes, h))
      | BooleanEnumK trueUrl falseUrl doc \<Rightarrow>
          (case BooleanEnum_toNode trueUrl falseUrl doc (h this) of
             Inl e \<Rightarrow> Inl e
           | Inr nodes \<Rightarrow> Inr (nodes, h)))"

text \<open>
  \<^verbatim>\<open>add\<close> consumes one value of a topic. \<^verbatim>\<open>GetComment\<close>, \<^verbatim>\<open>GetSubClassOf\<close> and
  \<^verbatim>\<open>IsSupersededBy\<close> (\<^verbatim>\<open>triples/wellKnown\<close>) are not among the sources and are
  parameters. The log line for a duplicate comment is not modelled.
\<close>

record ObjectPredicate =
  Predicate :: TSubject
  Object :: TSubject

definition add ::
    "(ObjectPredicate \<Rightarrow> string option) \<Rightarrow> (ObjectPredicate \<Rightarrow> TSubject option) \<Rightarrow>
     (TSubject \<Rightarrow> bool) \<Rightarrow> heap \<Rightarrow> ref \<Rightarrow> ObjectPredicate \<Rightarrow> ClassMap \<Rightarrow>
     error + (bool \<times> heap)" where
  "add GetComment GetSubClassOf IsSupersededBy h this v classMap =
     (case GetComment v of
        Some c \<Rightarrow> Inr (True, h(this := (h this)\<lparr>u_comment := Some c\<rparr>))
      | None \<Rightarrow>
     (case GetSubClassOf v of
        Some s \<Rightarrow>
          (case classMap (toString s) of
             Some parentClass \<Rightarrow>
               let h1 = h(this := (h this)\<lparr>parents := parents (h this) @ [parentClass]\<rparr>);
                   h2 = h1(parentClass := (h1 parentClass)\<lparr>children :=
                          children (h1 parentClass) @ [this]\<rparr>)
               in Inr (True, h2)
           | None \<Rightarrow>
               Inl (Error (''Couldn't find parent of '' @ toHumanString (subject (h this)) @
                           '', '' @ toString s)))
      | None \<Rightarrow>
          if IsSupersededBy (Predicate v) then
            (case classMap (toString (Object v)) of
               None \<Rightarrow>
                 Inl (Error (''Couldn't find class '' @ toString (Object v) @
                             '', which supersedes class '' @
                             toHumanString (subject (h this))))
             | Some supersededBy \<Rightarrow>
                 Inr (True, h(this := (h this)\<lparr>u_supersededBy :=
                        u_supersededBy (h this) @ [supersededBy]\<rparr>)))
          else Inr (False, h)))"

definition addProp :: "heap \<Rightarrow> ref \<Rightarrow> Property \<Rightarrow> heap" where
  "addProp h this p = h(this := (h this)\<lparr>u_props := u_props (h this) @ [p]\<rparr>)"

definition addEnum :: "heap \<Rightarrow> ref \<Rightarrow> EnumValue \<Rightarrow> heap" where
  "addEnum h this e = h(this := (h this)\<lparr>u_enums := u_enums (h this) @ [e]\<rparr>)"

section \<open>JSON-LD items (lib/jsonld.ts)\<close>

text \<open>
  The sources hold a second, older generator: \<^verbatim>\<open>generator/run.ts\<close> with
  \<^verbatim>\<open>lib/jsonld.ts\<close>, \<^verbatim>\<open>lib/wellKnown.ts\<close>, \<^verbatim>\<open>lib/toClass.ts\<close> and
  \<^verbatim>\<open>lib/toProperty.ts\<close>. It reads JSON-LD graph items. Where its names clash with those
  of src/ts/class.ts they are prefixed with \<open>Lib\<close> or \<open>lib_\<close>.

  A \<^verbatim>\<open>JsonLdItem<T>\<close> is one value or an array of values. An optional key of a graph item
  is an \<open>option\<close>: \<open>None\<close> when the key is absent. The keys the code only tests for
  presence are flags.
\<close>

datatype 'a JsonLdItem = One 'a | Many "'a list"

datatype JsonLdStringValue = Plain string | Tagged (language: string) (tagged_value: string)

datatype JsonLdObjectReference = ObjectReference (ref_id: string)

record JsonLdGraphItem =
  ld_id :: string
  ld_types :: "string JsonLdItem option"
  ld_comment :: "JsonLdStringValue JsonLdItem option"
  ld_label :: "JsonLdStringValue JsonLdItem option"
  ld_subClassOf :: "JsonLdObjectReference JsonLdItem option"
  ld_domainIncludes :: "JsonLdObjectReference JsonLdItem option"
  ld_rangeIncludes :: "JsonLdObjectReference JsonLdItem option"
  has_source :: bool
  has_softwareVersion :: bool
  has_closeMatch :: bool

datatype JsonLdGraphMember = Graph "JsonLdGraphMember list" | Item JsonLdGraphItem

text \<open>
  JavaScript truthiness: the empty string is falsy, every object and every array is
  truthy, an absent key reads as \<^verbatim>\<open>undefined\<close>.
\<close>

definition truthy_string :: "string \<Rightarrow> bool" where
  "truthy_string s = (s \<noteq> [])"

fun truthy_value :: "JsonLdStringValue \<Rightarrow> bool" where
  "truthy_value (Plain s) = truthy_string s"
| "truthy_value (Tagged l v) = True"

definition truthy_object :: "JsonLdObjectReference \<Rightarrow> bool" where
  "truthy_object r = True"

fun truthy :: "('a \<Rightarrow> bool) \<Rightarrow> 'a JsonLdItem option \<Rightarrow> bool" where
  "truthy t None = False"
| "truthy t (Some (One x)) = t x"
| "truthy t (Some (Many xs)) = True"

fun ToArray :: "('a \<Rightarrow> bool) \<Rightarrow> 'a JsonLdItem option \<Rightarrow> 'a list" where
  "ToArray t None = []"
| "ToArray t (Some (Many xs)) = xs"
| "ToArray t (Some (One x)) = (if \<not> t x then [] else [x])"

definition IsCloseMatch :: "JsonLdGraphItem \<Rightarrow> bool" where
  "IsCloseMatch item = (has_closeMatch item \<and> \<not> (ld_types item \<noteq> None))"

definition IsSourceOnly :: "JsonLdGraphItem \<Rightarrow> bool" where
  "IsSourceOnly item = (has_source item \<and> \<not> (ld_types item \<noteq> None))"

definition IsSoftwareVersionOnly :: "JsonLdGraphItem \<Rightarrow> bool" where
  "IsSoftwareVersionOnly item = (has_softwareVersion item \<and> \<not> (ld_types item \<noteq> None))"

definition IsTestComment :: "JsonLdGraphItem \<Rightarrow> bool" where
  "IsTestComment item = (ld_id item = ''http://meta.schema.org/'')"

section \<open>Well-known terms (lib/wellKnown.ts)\<close>

fun comment_in :: "string \<Rightarrow> JsonLdStringValue \<Rightarrow> string option" where
  "comment_in preferredLanguage (Plain c) = Some c"
| "comment_in preferredLanguage (Tagged l v) = (if l = preferredLanguage then Some v else None)"

definition GetComments :: "JsonLdGraphItem \<Rightarrow> string \<Rightarrow> string list" where
  "GetComments item preferredLanguage =
     concat (map (\<lambda>c. case comment_in preferredLanguage c of
                         None \<Rightarrow> []
                       | Some c' \<Rightarrow> if truthy_string c' then [c'] else [])
                 (ToArray truthy_value (ld_comment item)))"

definition GetSubClassOf :: "JsonLdGraphItem \<Rightarrow> string list" where
  "GetSubClassOf item = map ref_id (ToArray truthy_object (ld_subClassOf item))"

definition startsWith :: "string \<Rightarrow> string \<Rightarrow> bool" where
  "startsWith s pre = (take (length pre) s = pre)"

definition GetTypes :: "JsonLdGraphItem \<Rightarrow> error + string list" where
  "GetTypes item =
     (if startsWith (ld_id item) ''file:'' then Inr []
      else (case ld_types item of
              Some (Many types) \<Rightarrow>
                if length types = 0 then
                  Inl (Error (''Empty type found for item '' @ ld_id item))
                else Inr types
            | Some (One types) \<Rightarrow> Inr [types]
            | None \<Rightarrow> Inl (Error (''No type found for item '' @ ld_id item @ ''.''))))"

definition IsClassType :: "string \<Rightarrow> bool" where
  "IsClassType type = (type = ''rdfs:Class'')"

definition IsPropertyType :: "string \<Rightarrow> bool" where
  "IsPropertyType type = (type = ''rdf:Property'')"

definition IsDataType :: "string \<Rightarrow> bool" where
  "IsDataType type = (type = ''http://schema.org/DataType'')"

fun HasEnumType :: "string list \<Rightarrow> bool" where
  "HasEnumType [] = False"
| "HasEnumType (type # types) =
     (if IsClassType type \<or> IsPropertyType type \<or> IsDataType type then HasEnumType types
      else True)"

section \<open>Grouping and merging of graph items (generator/run.ts)\<close>

text \<open>
  A JavaScript \<^verbatim>\<open>Map\<close> iterates in insertion order and \<^verbatim>\<open>set\<close> on a key it holds
  keeps the key's place: it is a list of pairs with distinct keys. \<^verbatim>\<open>new Set(xs)\<close>
  keeps the first occurrence of each element.
\<close>

type_synonym ('k, 'v) js_map = "('k \<times> 'v) list"

definition map_get :: "('k, 'v) js_map \<Rightarrow> 'k \<Rightarrow> 'v option" where
  "map_get m k = map_of m k"

fun map_set :: "('k, 'v) js_map \<Rightarrow> 'k \<Rightarrow> 'v \<Rightarrow> ('k, 'v) js_map" where
  "map_set [] k v = [(k, v)]"
| "map_set ((k', v') # m) k v = (if k' = k then (k, v) # m else (k', v') # map_set m k v)"

definition map_values :: "('k, 'v) js_map \<Rightarrow> 'v list" where
  "map_values m = map snd m"

fun set_values :: "'a list \<Rightarrow> 'a list" where
  "set_values [] = []"
| "set_values (x # xs) = x # set_values (filter (\<lambda>y. y \<noteq> x) xs)"

definition combineString ::
    "string JsonLdItem option \<Rightarrow> string JsonLdItem option \<Rightarrow> string list" where
  "combineString first second =
     set_values (ToArray truthy_string first @ ToArray truthy_string second)"

definition combineRef ::
    "JsonLdObjectReference JsonLdItem option \<Rightarrow> JsonLdObjectReference JsonLdItem option \<Rightarrow>
     JsonLdObjectReference list" where
  "combineRef first second =
     map ObjectReference
       (set_values (map ref_id (ToArray truthy_object first @ ToArray truthy_object second)))"

text \<open>
  The body of the loop of \<^verbatim>\<open>group\<close> for a member that is already in the map: the stored
  item is updated in place, key by key. The log lines are not modelled.
\<close>

definition merge_into :: "JsonLdGraphItem \<Rightarrow> JsonLdGraphItem \<Rightarrow> JsonLdGraphItem" where
  "merge_into alreadyExists member =
     (let m1 = (if truthy truthy_value (ld_comment member)
                then alreadyExists\<lparr>ld_comment := ld_comment member\<rparr> else alreadyExists);
          m2 = (if truthy truthy_value (ld_label member)
                then m1\<lparr>ld_label := ld_label member\<rparr> else m1);
          m3 = (if truthy truthy_object (ld_domainIncludes member)
                then m2\<lparr>ld_domainIncludes :=
                       Some (Many (combineRef (ld_domainIncludes m2) (ld_domainIncludes member)))\<rparr>
                else m2);
          m4 = (if truthy truthy_object (ld_rangeIncludes member)
                then m3\<lparr>ld_rangeIncludes :=
                       Some (Many (combineRef (ld_rangeIncludes m3) (ld_rangeIncludes member)))\<rparr>
                else m3);
          m5 = (if truthy truthy_object (ld_subClassOf member)
                then m4\<lparr>ld_subClassOf :=
                       Some (Many (combineRef (ld_subClassOf m4) (ld_subClassOf member)))\<rparr>
                else m4)
      in if truthy truthy_string (ld_types member)
         then m5\<lparr>ld_types := Some (Many (combineString (ld_types m5) (ld_types member)))\<rparr>
         else m5)"

fun group ::
    "JsonLdGraphMember list \<Rightarrow> (string, JsonLdGraphItem) js_map \<Rightarrow>
     (string, JsonLdGraphItem) js_map" where
  "group [] m = m"
| "group (Graph g # members) m = group members (group g m)"
| "group (Item member # members) m =
     (if IsSourceOnly member \<or> IsSoftwareVersionOnly member \<or> IsCloseMatch member then
        group members m
      else if IsTestComment member then group members m
      else (case map_get m (ld_id member) of
              Some alreadyExists \<Rightarrow>
                group members (map_set m (ld_id member) (merge_into alreadyExists member))
            | None \<Rightarrow> group members (map_set m (ld_id member) member)))"

text \<open>What a merged item says: the identifiers of its domain and range, and its type tags.\<close>

definition domain_ids :: "JsonLdGraphItem \<Rightarrow> string list" where
  "domain_ids item = map ref_id (ToArray truthy_object (ld_domainIncludes item))"

definition range_ids :: "JsonLdGraphItem \<Rightarrow> string list" where
  "range_ids item = map ref_id (ToArray truthy_object (ld_rangeIncludes item))"

definition type_tags :: "JsonLdGraphItem \<Rightarrow> string list" where
  "type_tags item = ToArray truthy_string (ld_types item)"

text \<open>A member that \<^verbatim>\<open>group\<close> does not skip.\<close>

definition kept :: "JsonLdGraphItem \<Rightarrow> bool" where
  "kept member =
     (\<not> (IsSourceOnly member \<or> IsSoftwareVersionOnly member \<or> IsCloseMatch member) \<and>
      \<not> IsTestComment member)"

section \<open>Properties (lib/toProperty.ts)\<close>

text \<open>
  \<^verbatim>\<open>toScopedName\<close> and \<^verbatim>\<open>toEnumMemberName\<close> (\<^verbatim>\<open>lib/names\<close>) are not among the sources;
  the functions that call them take them as parameters. A \<^verbatim>\<open>PropertyType\<close> is shared by
  the \<^verbatim>\<open>Property\<close> objects made from it, and it is not changed once they are made, so a
  \<^verbatim>\<open>Property\<close> holds it by value. Its \<^verbatim>\<open>types\<close> are references to classes.
\<close>

record PropertyType =
  pt_item :: JsonLdGraphItem
  pt_comment :: "string option"
  pt_types :: "ref list"

datatype StringLiteralType = StringLiteralType (literal_value: string)

datatype PropertyKind = OfPropertyType PropertyType | OfStringLiteralType StringLiteralType

record LibProperty =
  lib_key :: string
  lib_type :: PropertyKind

record LibEnumValue =
  ev_item :: JsonLdGraphItem
  ev_comment :: "string option"

datatype LibClassKind = LibClassK | LibBuiltinK (b_name: string) (b_equivTo: string) (b_doc: string)

record LibClass =
  lib_kind :: LibClassKind
  lib_item :: JsonLdGraphItem
  lib_comment :: "string option"
  lib_children :: "ref list"
  lib_parents :: "ref list"
  lib_props :: "LibProperty list"
  lib_enums :: "LibEnumValue list"

type_synonym lib_heap = "ref \<Rightarrow> LibClass"

definition required :: "LibProperty \<Rightarrow> bool" where
  "required p = startsWith (lib_key p) ''@''"

definition scalarTypeNode ::
    "(JsonLdGraphItem \<Rightarrow> string) \<Rightarrow> lib_heap \<Rightarrow> LibProperty \<Rightarrow> TypeNode" where
  "scalarTypeNode toScopedName h p =
     (case lib_type p of
        OfStringLiteralType t \<Rightarrow> LiteralTypeNode (literal_value t)
      | OfPropertyType t \<Rightarrow>
          let typeNodes =
                map (\<lambda>type. TypeReferenceNode (toScopedName (lib_item (h type)))) (pt_types t)
          in (case typeNodes of
                [] \<Rightarrow> KeywordTypeNode NeverKeyword
              | [n] \<Rightarrow> n
              | _ \<Rightarrow> UnionTypeNode typeNodes))"

definition typeNode ::
    "(JsonLdGraphItem \<Rightarrow> string) \<Rightarrow> lib_heap \<Rightarrow> LibProperty \<Rightarrow> TypeNode" where
  "typeNode toScopedName h p =
     (let node = scalarTypeNode toScopedName h p in
      if startsWith (lib_key p) ''@'' then node else UnionTypeNode [node, ArrayTypeNode node])"

definition property_toNode ::
    "(JsonLdGraphItem \<Rightarrow> string) \<Rightarrow> lib_heap \<Rightarrow> LibProperty \<Rightarrow> PropertySignature" where
  "property_toNode toScopedName h p =
     PropertySignature
       (case lib_type p of OfPropertyType t \<Rightarrow> pt_comment t | OfStringLiteralType t \<Rightarrow> None)
       (lib_key p)
       (if required p then False else True)
       (typeNode toScopedName h p)"

section \<open>Classes and enum values (lib/toClass.ts)\<close>

definition lib_instanceofBuiltin :: "LibClass \<Rightarrow> bool" where
  "lib_instanceofBuiltin c = (lib_kind c \<noteq> LibClassK)"

fun lib_aliasesBuiltin :: "nat \<Rightarrow> lib_heap \<Rightarrow> ref \<Rightarrow> error + bool"
  and lib_aliasesBuiltin_for :: "nat \<Rightarrow> lib_heap \<Rightarrow> ref list \<Rightarrow> error + bool" where
  "lib_aliasesBuiltin 0 h this = Inl RangeError"
| "lib_aliasesBuiltin (Suc d) h this = lib_aliasesBuiltin_for d h (lib_parents (h this))"
| "lib_aliasesBuiltin_for d h [] = Inr False"
| "lib_aliasesBuiltin_for d h (parent # rest) =
     (if lib_instanceofBuiltin (h parent) then Inr True
      else (case lib_aliasesBuiltin d h parent of
              Inl e \<Rightarrow> Inl e
            | Inr b \<Rightarrow> if b then Inr True else lib_aliasesBuiltin_for d h rest))"

definition lib_isLeaf :: "nat \<Rightarrow> lib_heap \<Rightarrow> ref \<Rightarrow> error + bool" where
  "lib_isLeaf d h this =
     (if length (lib_children (h this)) = 0 then
        (case lib_aliasesBuiltin d h this of Inl e \<Rightarrow> Inl e | Inr b \<Rightarrow> Inr (\<not> b))
      else Inr False)"

definition lib_properties ::
    "(JsonLdGraphItem \<Rightarrow> string) \<Rightarrow> nat \<Rightarrow> lib_heap \<Rightarrow> ref \<Rightarrow> error + LibProperty list" where
  "lib_properties toScopedName d h this =
     (case lib_isLeaf d h this of
        Inl e \<Rightarrow> Inl e
      | Inr leaf \<Rightarrow>
          if leaf then
            Inr (\<lparr>lib_key = ''@type'',
                  lib_type = OfStringLiteralType
                    (StringLiteralType (toScopedName (lib_item (h this))))\<rparr>
                 # lib_props (h this))
          else Inr (lib_props (h this)))"

definition lib_baseName :: "(JsonLdGraphItem \<Rightarrow> string) \<Rightarrow> LibClass \<Rightarrow> string" where
  "lib_baseName toScopedName c =
     (case lib_kind c of
        LibBuiltinK n e d \<Rightarrow> n
      | LibClassK \<Rightarrow> toScopedName (lib_item c) @ ''Base'')"

definition lib_enumName :: "(JsonLdGraphItem \<Rightarrow> string) \<Rightarrow> LibClass \<Rightarrow> string" where
  "lib_enumName toScopedName c = toScopedName (lib_item c) @ ''Enum''"

definition lib_className :: "(JsonLdGraphItem \<Rightarrow> string) \<Rightarrow> LibClass \<Rightarrow> string" where
  "lib_className toScopedName c = toScopedName (lib_item c)"

definition lib_new_Class :: "JsonLdGraphItem \<Rightarrow> LibClass" where
  "lib_new_Class item =
     \<lparr>lib_kind = LibClassK, lib_item = item, lib_comment = None, lib_children = [],
      lib_parents = [], lib_props = [], lib_enums = []\<rparr>"

text \<open>
  \<^verbatim>\<open>Class.init\<close>. The body of the loop over the parents ends with \<^verbatim>\<open>return true\<close>, so the
  loop never reaches a second parent; \<^verbatim>\<open>return false\<close> follows the loop. The log lines
  are not modelled.
\<close>

fun lib_init_for ::
    "lib_heap \<Rightarrow> ref \<Rightarrow> (string, ref) js_map \<Rightarrow> string list \<Rightarrow> error + (bool \<times> lib_heap)" where
  "lib_init_for h this classMap [] = Inr (False, h)"
| "lib_init_for h this classMap (parentId # rest) =
     (case map_get classMap parentId of
        Some parentClass \<Rightarrow>
          let h1 = h(this := (h this)\<lparr>lib_parents := lib_parents (h this) @ [parentClass]\<rparr>);
              h2 = h1(parentClass := (h1 parentClass)\<lparr>lib_children :=
                     lib_children (h1 parentClass) @ [this]\<rparr>)
          in Inr (True, h2)
      | None \<Rightarrow>
          Inl (Error (''Couldn't find parent of '' @ ld_id (lib_item (h this)) @ '', '' @
                      parentId)))"

definition lib_init ::
    "string \<Rightarrow> lib_heap \<Rightarrow> ref \<Rightarrow> (string, ref) js_map \<Rightarrow> error + (bool \<times> lib_heap)" where
  "lib_init preferredLanguage h this classMap =
     (let comments = GetComments (lib_item (h this)) preferredLanguage;
          h1 = (if length comments > 0
                then h(this := (h this)\<lparr>lib_comment := Some (hd comments)\<rparr>) else h)
      in lib_init_for h1 this classMap (GetSubClassOf (lib_item (h1 this))))"

definition lib_addProp :: "lib_heap \<Rightarrow> ref \<Rightarrow> LibProperty \<Rightarrow> lib_heap" where
  "lib_addProp h this p = h(this := (h this)\<lparr>lib_props := lib_props (h this) @ [p]\<rparr>)"

definition lib_addEnum :: "lib_heap \<Rightarrow> ref \<Rightarrow> LibEnumValue \<Rightarrow> lib_heap" where
  "lib_addEnum h this e = h(this := (h this)\<lparr>lib_enums := lib_enums (h this) @ [e]\<rparr>)"

definition lib_baseNode ::
    "(JsonLdGraphItem \<Rightarrow> string) \<Rightarrow> nat \<Rightarrow> lib_heap \<Rightarrow> ref \<Rightarrow> error + TypeNode" where
  "lib_baseNode toScopedName d h this =
     (case lib_properties toScopedName d h this of
        Inl e \<Rightarrow> Inl e
      | Inr props \<Rightarrow>
          let members = map (property_toNode toScopedName h) props;
              propLiteral = TypeLiteralNode members;
              parentTypes =
                map (\<lambda>parent. TypeReferenceNode (lib_baseName toScopedName (h parent)))
                  (lib_parents (h this));
              parentNode =
                (if length parentTypes = 0 then None
                 else if length parentTypes = 1 then Some (hd parentTypes)
                 else Some (ParenthesizedType (IntersectionTypeNode parentTypes)))
          in (case parentNode of
                Some pn \<Rightarrow>
                  if length members > 0 then Inr (IntersectionTypeNode [pn, propLiteral])
                  else Inr pn
              | None \<Rightarrow>
                  if length members > 0 then Inr propLiteral
                  else Inr (KeywordTypeNode NeverKeyword)))"

definition lib_baseDecl ::
    "(JsonLdGraphItem \<Rightarrow> string) \<Rightarrow> nat \<Rightarrow> lib_heap \<Rightarrow> ref \<Rightarrow> error + Statement" where
  "lib_baseDecl toScopedName d h this =
     (case lib_baseNode toScopedName d h this of
        Inl e \<Rightarrow> Inl e
      | Inr node \<Rightarrow>
          Inr (TypeAliasDeclaration None False (lib_baseName toScopedName (h this)) node))"

definition lib_nonEnumType :: "(JsonLdGraphItem \<Rightarrow> string) \<Rightarrow> lib_heap \<Rightarrow> ref \<Rightarrow> TypeNode" where
  "lib_nonEnumType toScopedName h this =
     (let children =
            map (\<lambda>child. TypeReferenceNode (lib_className toScopedName (h child)))
              (lib_children (h this));
          childrenNode =
            (if length children = 0 then None
             else if length children = 1 then Some (hd children)
             else Some (ParenthesizedType (UnionTypeNode children)))
      in (case childrenNode of
            Some cn \<Rightarrow> cn
          | None \<Rightarrow> TypeReferenceNode (lib_baseName toScopedName (h this))))"

definition lib_totalType :: "(JsonLdGraphItem \<Rightarrow> string) \<Rightarrow> lib_heap \<Rightarrow> ref \<Rightarrow> TypeNode" where
  "lib_totalType toScopedName h this =
     (let isEnum = length (lib_enums (h this)) > 0 in
      if isEnum then
        UnionTypeNode
          [TypeReferenceNode (lib_enumName toScopedName (h this)),
           ParenthesizedType (lib_nonEnumType toScopedName h this)]
      else lib_nonEnumType toScopedName h this)"

definition enum_toNode :: "(JsonLdGraphItem \<Rightarrow> string) \<Rightarrow> LibEnumValue \<Rightarrow> EnumMember" where
  "enum_toNode toEnumMemberName e =
     EnumMember (ev_comment e) (toEnumMemberName (ev_item e)) (ld_id (ev_item e))"

definition lib_enumDecl ::
    "(JsonLdGraphItem \<Rightarrow> string) \<Rightarrow> (JsonLdGraphItem \<Rightarrow> string) \<Rightarrow> lib_heap \<Rightarrow> ref \<Rightarrow>
     Statement option" where
  "lib_enumDecl toScopedName toEnumMemberName h this =
     (if length (lib_enums (h this)) = 0 then None
      else Some (EnumDeclaration None True (lib_enumName toScopedName (h this))
                   (map (enum_toNode toEnumMemberName) (lib_enums (h this)))))"

text \<open>\<^verbatim>\<open>toNode\<close>; \<^verbatim>\<open>Builtin\<close> overrides it with a single alias declaration.\<close>

definition lib_toNode ::
    "(JsonLdGraphItem \<Rightarrow> string) \<Rightarrow> (JsonLdGraphItem \<Rightarrow> string) \<Rightarrow> nat \<Rightarrow> lib_heap \<Rightarrow> ref \<Rightarrow>
     error + Statement list" where
  "lib_toNode toScopedName toEnumMemberName d h this =
     (case lib_kind (h this) of
        LibBuiltinK n equivTo doc \<Rightarrow>
          Inr [TypeAliasDeclaration (Some doc) True n (TypeReferenceNode equivTo)]
      | LibClassK \<Rightarrow>
          let typeValue = lib_totalType toScopedName h this;
              declaration =
                TypeAliasDeclaration (lib_comment (h this)) True
                  (lib_className toScopedName (h this)) typeValue
          in (case lib_baseDecl toScopedName d h this of
                Inl e \<Rightarrow> Inl e
              | Inr bd \<Rightarrow>
                  Inr (arrayOf [lib_enumDecl toScopedName toEnumMemberName h this, Some bd,
                                Some declaration])))"

text \<open>
  \<^verbatim>\<open>EnumValue.init\<close>: the loop over the type tags skips the class and data type tags and
  returns at the first other tag. The comment is read only when the loop ends without
  returning.
\<close>

fun enum_init_for ::
    "lib_heap \<Rightarrow> LibEnumValue \<Rightarrow> (string, ref) js_map \<Rightarrow> string list \<Rightarrow>
     error + (bool \<times> lib_heap) option" where
  "enum_init_for h this m [] = Inr None"
| "enum_init_for h this m (type # types) =
     (if IsClassType type \<or> IsDataType type then enum_init_for h this m types
      else (case map_get m type of
              None \<Rightarrow> Inl (Error (''Couldn't find '' @ type @ '' in classes.''))
            | Some enumObject \<Rightarrow> Inr (Some (True, lib_addEnum h enumObject this))))"

definition enum_init ::
    "lib_heap \<Rightarrow> LibEnumValue \<Rightarrow> (string, ref) js_map \<Rightarrow> error + (bool \<times> lib_heap)" where
  "enum_init h this m =
     (case GetTypes (ev_item this) of
        Inl e \<Rightarrow> Inl e
      | Inr types \<Rightarrow>
          (case enum_init_for h this m types of
             Inl e \<Rightarrow> Inl e
           | Inr (Some r) \<Rightarrow> Inr r
           | Inr None \<Rightarrow> Inr (False, h)))"

definition new_Builtin :: "string \<Rightarrow> string \<Rightarrow> string \<Rightarrow> LibClass" where
  "new_Builtin n equivTo doc =
     (lib_new_Class
        \<lparr>ld_id = ''http://schema.org/'' @ n, ld_types = Some (One []),
         ld_comment = Some (One (Plain doc)), ld_label = Some (One (Plain n)),
         ld_subClassOf = None, ld_domainIncludes = None, ld_rangeIncludes = None,
         has_source = False, has_softwareVersion = False, has_closeMatch = False\<rparr>)
     \<lparr>lib_kind := LibBuiltinK n equivTo doc\<rparr>"

definition wellKnownTypes :: "LibClass list" where
  \<open>wellKnownTypes =
     [new_Builtin ''Text'' ''string'' ''Data type: Text.'',
      new_Builtin ''Number'' ''number'' ''Data type: Number.'',
      new_Builtin ''Time'' ''string''
        ''DateTime represented in string, e.g. 2017-01-04T17:10:00-05:00.'',
      new_Builtin ''Date'' ''string''
        ''A date value in <a href="http://en.wikipedia.org/wiki/ISO_8601">ISO 8601 date format</a>.'',
      new_Builtin ''DateTime'' ''string''
        ''A combination of date and time of day in the form [-]CCYY-MM-DDThh:mm:ss[Z|(+|-)hh:mm] (see Chapter 5.4 of ISO 8601).'',
      new_Builtin ''Boolean'' ''boolean'' ''Boolean: True or False.'']\<close>

text \<open>
  The six built-in classes are module-level objects: they hold the references
  \<open>0, \<dots>, 5\<close> of the initial heap. A reference that is not allocated yet holds an empty
  object that nothing refers to.
\<close>

definition empty_item :: JsonLdGraphItem where
  "empty_item =
     \<lparr>ld_id = [], ld_types = None, ld_comment = None, ld_label = None, ld_subClassOf = None,
      ld_domainIncludes = None, ld_rangeIncludes = None, has_source = False,
      has_softwareVersion = False, has_closeMatch = False\<rparr>"

definition initial_heap :: lib_heap where
  "initial_heap r =
     (if r < length wellKnownTypes then wellKnownTypes ! r else lib_new_Class empty_item)"

definition IsClass :: "JsonLdGraphItem \<Rightarrow> error + bool" where
  "IsClass item =
     (case GetTypes item of
        Inl e \<Rightarrow> Inl e
      | Inr types \<Rightarrow>
          if list_ex IsDataType types then Inr False
          else if IsDataType (ld_id item) then Inr False
          else if \<not> list_ex IsClassType types then Inr False
          else Inr True)"

text \<open>
  \<^verbatim>\<open>ForwardDeclareClasses\<close>: the state of its second loop is the map, the heap and the
  next free reference.
\<close>

fun declare_builtins :: "(string, ref) js_map \<Rightarrow> lib_heap \<Rightarrow> ref list \<Rightarrow> (string, ref) js_map" where
  "declare_builtins classes h [] = classes"
| "declare_builtins classes h (wk # rest) =
     declare_builtins (map_set classes (ld_id (lib_item (h wk))) wk) h rest"

fun declare_items ::
    "JsonLdGraphItem list \<Rightarrow> (string, ref) js_map \<Rightarrow> lib_heap \<Rightarrow> ref \<Rightarrow>
     error + ((string, ref) js_map \<times> lib_heap \<times> ref)" where
  "declare_items [] classes h n = Inr (classes, h, n)"
| "declare_items (item # items) classes h n =
     (case IsClass item of
        Inl e \<Rightarrow> Inl e
      | Inr c \<Rightarrow>
          if \<not> c then declare_items items classes h n
          else declare_items items (map_set classes (ld_id item) n)
                 (h(n := lib_new_Class item)) (Suc n))"

definition ForwardDeclareClasses ::
    "JsonLdGraphItem list \<Rightarrow> error + ((string, ref) js_map \<times> lib_heap)" where
  "ForwardDeclareClasses items =
     (let classes = declare_builtins [] initial_heap [0 ..< length wellKnownTypes] in
      case declare_items items classes initial_heap (length wellKnownTypes) of
        Inl e \<Rightarrow> Inl e
      | Inr (classes', h, n) \<Rightarrow>
          if length classes' = 0 then Inl (Error ''Expected Class topics to exist.'')
          else Inr (classes', h))"

fun BuildClasses ::
    "string \<Rightarrow> JsonLdGraphItem list \<Rightarrow> (string, ref) js_map \<Rightarrow> lib_heap \<Rightarrow> error + lib_heap" where
  "BuildClasses preferredLanguage [] classes h = Inr h"
| "BuildClasses preferredLanguage (item # items) classes h =
     (case IsClass item of
        Inl e \<Rightarrow> Inl e
      | Inr c \<Rightarrow>
          if \<not> c then BuildClasses preferredLanguage items classes h
          else (case map_get classes (ld_id item) of
                  None \<Rightarrow>
                    Inl (Error (''Class '' @ ld_id item @ '' should have been forward declared.''))
                | Some cls \<Rightarrow>
                    (case lib_init preferredLanguage h cls classes of
                       Inl e \<Rightarrow> Inl e
                     | Inr (r, h') \<Rightarrow> BuildClasses preferredLanguage items classes h')))"

definition ProcessClasses ::
    "string \<Rightarrow> JsonLdGraphItem list \<Rightarrow> error + ((string, ref) js_map \<times> lib_heap)" where
  "ProcessClasses preferredLanguage items =
     (case ForwardDeclareClasses items of
        Inl e \<Rightarrow> Inl e
      | Inr (classes, h) \<Rightarrow>
          (case BuildClasses preferredLanguage items classes h of
             Inl e \<Rightarrow> Inl e
           | Inr h' \<Rightarrow> Inr (classes, h')))"

fun filter_properties :: "JsonLdGraphItem list \<Rightarrow> error + JsonLdGraphItem list" where
  "filter_properties [] = Inr []"
| "filter_properties (topic # topics) =
     (case GetTypes topic of
        Inl e \<Rightarrow> Inl e
      | Inr types \<Rightarrow>
          (case filter_properties topics of
             Inl e \<Rightarrow> Inl e
           | Inr rest \<Rightarrow> Inr (if list_ex IsPropertyType types then topic # rest else rest)))"

definition FindProperties :: "JsonLdGraphItem list \<Rightarrow> error + JsonLdGraphItem list" where
  "FindProperties topics =
     (case filter_properties topics of
        Inl e \<Rightarrow> Inl e
      | Inr found \<Rightarrow>
          if length found = 0 then Inl (Error ''Unexpected: Property Topics to exist.'')
          else Inr found)"

text \<open>\<^verbatim>\<open>PropertyType.init\<close>, for a freshly made \<^verbatim>\<open>PropertyType\<close> of \<open>item\<close>.\<close>

definition resolve_range :: "(string, ref) js_map \<Rightarrow> JsonLdObjectReference \<Rightarrow> error + ref" where
  "resolve_range m r =
     (case map_get m (ref_id r) of
        None \<Rightarrow> Inl (Error (''Class with ID '' @ ref_id r @ '' not found.''))
      | Some cls \<Rightarrow> Inr cls)"

fun attach_domains ::
    "(JsonLdGraphItem \<Rightarrow> string) \<Rightarrow> PropertyType \<Rightarrow> (string, ref) js_map \<Rightarrow> lib_heap \<Rightarrow>
     JsonLdObjectReference list \<Rightarrow> error + lib_heap" where
  "attach_domains toScopedName this m h [] = Inr h"
| "attach_domains toScopedName this m h (domain # rest) =
     (case map_get m (ref_id domain) of
        None \<Rightarrow>
          Inl (Error (''Could not find class for '' @ ld_id (pt_item this) @ '', '' @
                      ref_id domain @ ''.''))
      | Some cls \<Rightarrow>
          attach_domains toScopedName this m
            (lib_addProp h cls
               \<lparr>lib_key = toScopedName (pt_item this), lib_type = OfPropertyType this\<rparr>)
            rest)"

definition property_init ::
    "(JsonLdGraphItem \<Rightarrow> string) \<Rightarrow> string \<Rightarrow> JsonLdGraphItem \<Rightarrow> (string, ref) js_map \<Rightarrow>
     lib_heap \<Rightarrow> error + lib_heap" where
  "property_init toScopedName preferredLanguage item m h =
     (let comments = GetComments item preferredLanguage;
          c = (if length comments > 0 then Some (hd comments) else None)
      in case mapE (resolve_range m) (ToArray truthy_object (ld_rangeIncludes item)) of
           Inl e \<Rightarrow> Inl e
         | Inr types \<Rightarrow>
             attach_domains toScopedName
               \<lparr>pt_item = item, pt_comment = c, pt_types = types\<rparr> m h
               (ToArray truthy_object (ld_domainIncludes item)))"

text \<open>
  \<^verbatim>\<open>main\<close>, from the loaded ontology on. What it writes to the standard output is a list
  of chunks; it returns the chunks written and the exception that ended it, if any.
\<close>

datatype chunk = Text string | Printed Statement

fun process_properties ::
    "(JsonLdGraphItem \<Rightarrow> string) \<Rightarrow> string \<Rightarrow> JsonLdGraphItem list \<Rightarrow> (string, ref) js_map \<Rightarrow>
     lib_heap \<Rightarrow> error + lib_heap" where
  "process_properties toScopedName preferredLanguage [] classes h = Inr h"
| "process_properties toScopedName preferredLanguage (prop # props) classes h =
     (case property_init toScopedName preferredLanguage prop classes h of
        Inl e \<Rightarrow> Inl e
      | Inr h' \<Rightarrow> process_properties toScopedName preferredLanguage props classes h')"

fun process_enums ::
    "JsonLdGraphItem list \<Rightarrow> (string, ref) js_map \<Rightarrow> lib_heap \<Rightarrow> error + lib_heap" where
  "process_enums [] classes h = Inr h"
| "process_enums (item # items) classes h =
     (case GetTypes item of
        Inl e \<Rightarrow> Inl e
      | Inr types \<Rightarrow>
          if \<not> HasEnumType types then process_enums items classes h
          else (case enum_init h \<lparr>ev_item = item, ev_comment = None\<rparr> classes of
                  Inl e \<Rightarrow> Inl e
                | Inr (r, h') \<Rightarrow> process_enums items classes h'))"

fun write_classes ::
    "(JsonLdGraphItem \<Rightarrow> string) \<Rightarrow> (JsonLdGraphItem \<Rightarrow> string) \<Rightarrow> nat \<Rightarrow> lib_heap \<Rightarrow>
     (string \<times> ref) list \<Rightarrow> chunk list \<Rightarrow> chunk list \<times> error option" where
  "write_classes toScopedName toEnumMemberName d h [] out = (out, None)"
| "write_classes toScopedName toEnumMemberName d h (cls # rest) out =
     (case lib_toNode toScopedName toEnumMemberName d h (snd cls) of
        Inl e \<Rightarrow> (out, Some e)
      | Inr nodes \<Rightarrow>
          write_classes toScopedName toEnumMemberName d h rest
            (out @ concat (map (\<lambda>node. [Printed node, Text [CHR 0x0A]]) nodes)
                 @ [Text [CHR 0x0A]]))"

definition main ::
    "(JsonLdGraphItem \<Rightarrow> string) \<Rightarrow> (JsonLdGraphItem \<Rightarrow> string) \<Rightarrow> string \<Rightarrow> nat \<Rightarrow>
     JsonLdGraphMember list \<Rightarrow> chunk list \<times> error option" where
  "main toScopedName toEnumMemberName preferredLanguage d graph =
     (let byId = group graph [];
          items = map_values byId
      in case ProcessClasses preferredLanguage items of
           Inl e \<Rightarrow> ([], Some e)
         | Inr (classes, h1) \<Rightarrow>
      (case FindProperties items of
           Inl e \<Rightarrow> ([], Some e)
         | Inr props \<Rightarrow>
      (case process_properties toScopedName preferredLanguage props classes h1 of
           Inl e \<Rightarrow> ([], Some e)
         | Inr h2 \<Rightarrow>
      (case process_enums items classes h2 of
           Inl e \<Rightarrow> ([], Some e)
         | Inr h3 \<Rightarrow>
             write_classes toScopedName toEnumMemberName d h3 classes
               [Text (''// tslint:disable'' @ [CHR 0x0A, CHR 0x0A])]))))"

section \<open>Example inputs\<close>

text \<open>A graph item with an identifier and type tags and no other key.\<close>

definition example_item :: "string \<Rightarrow> string list \<Rightarrow> JsonLdGraphItem" where
  "example_item i types =
     \<lparr>ld_id = i, ld_types = Some (Many types), ld_comment = None, ld_label = None,
      ld_subClassOf = None, ld_domainIncludes = None, ld_rangeIncludes = None,
      has_source = False, has_softwareVersion = False, has_closeMatch = False\<rparr>"

text \<open>Two declarations of the property \<open>p\<close>, one with domain \<open>X\<close>, one with domain \<open>Y\<close>.\<close>

definition decl_X :: JsonLdGraphItem where
  "decl_X = (example_item ''http://schema.org/p'' [''rdf:Property''])
              \<lparr>ld_domainIncludes := Some (One (ObjectReference ''http://schema.org/X''))\<rparr>"

definition decl_Y :: JsonLdGraphItem where
  "decl_Y = (example_item ''http://schema.org/p'' [''rdf:Property''])
              \<lparr>ld_domainIncludes := Some (One (ObjectReference ''http://schema.org/Y''))\<rparr>"



text \<open>
  A comparator for the examples, in place of the host's \<^verbatim>\<open>localeCompare\<close>: the
  lexicographic order of the character codes.
\<close>

fun example_compare :: "string \<Rightarrow> string \<Rightarrow> int" where
  "example_compare [] [] = 0"
| "example_compare [] (y # ys) = - 1"
| "example_compare (x # xs) [] = 1"
| "example_compare (x # xs) (y # ys) =
     (if (of_char x :: nat) < of_char y then - 1
      else if (of_char y :: nat) < of_char x then 1
      else example_compare xs ys)"

text \<open>
  A heap for src/ts/class.ts: the built-in \<open>Text\<close> (0); \<open>A\<close> (1) with the property \<open>p\<close>
  and the child \<open>B\<close> (2); \<open>C\<close> (3), a child of \<open>Text\<close>; \<open>E\<close> (4) without properties and
  with the child \<open>F\<close> (5).
\<close>

definition example_subject :: "string \<Rightarrow> TSubject" where
  "example_subject n =
     \<lparr>node_type = UrlNode, node_name = Some n, href = ''http://schema.org/'' @ n,
      blank_id = [], toString = ''http://schema.org/'' @ n, toHumanString = n\<rparr>"

definition example_class :: "ClassKind \<Rightarrow> string \<Rightarrow> Class" where
  "example_class k n =
     \<lparr>kind = k, subject = example_subject n, u_comment = None, children = [], parents = [],
      u_props = [], u_enums = [], u_supersededBy = []\<rparr>"

definition example_property :: Property where
  "example_property =
     \<lparr>key = example_subject ''p'', deprecated = False,
      rendered = PropertySignature None ''p'' True
        (UnionTypeNode [TypeReferenceNode ''Text'', ArrayTypeNode (TypeReferenceNode ''Text'')])\<rparr>"

definition example_heap :: heap where
  "example_heap r =
     (if r = 0 then example_class (BuiltinK ''string'' ''Data type: Text.'') ''Text''
      else if r = 1 then (example_class ClassK ''A'')\<lparr>children := [2], u_props := [example_property]\<rparr>
      else if r = 2 then (example_class ClassK ''B'')\<lparr>parents := [1]\<rparr>
      else if r = 3 then (example_class ClassK ''C'')\<lparr>parents := [0]\<rparr>
      else if r = 4 then (example_class ClassK ''E'')\<lparr>children := [5]\<rparr>
      else if r = 5 then (example_class ClassK ''F'')\<lparr>parents := [4]\<rparr>
      else example_class ClassK ''Unused'')"

definition example_rank :: "ref \<Rightarrow> nat" where
  "example_rank r = (if r = 2 \<or> r = 3 \<or> r = 5 then 1 else 0)"

text \<open>
  The same classes in a heap for lib/toClass.ts, and a stand-in for \<^verbatim>\<open>toScopedName\<close>
  that drops the prefix \<^verbatim>\<open>http://schema.org/\<close> of the identifier.
\<close>

definition example_scopedName :: "JsonLdGraphItem \<Rightarrow> string" where
  "example_scopedName item = drop 18 (ld_id item)"

definition lib_example_class :: "string \<Rightarrow> LibClass" where
  "lib_example_class n = lib_new_Class (example_item (''http://schema.org/'' @ n) [''rdfs:Class''])"

definition lib_example_property :: LibProperty where
  "lib_example_property =
     \<lparr>lib_key = ''p'',
      lib_type = OfPropertyType
        \<lparr>pt_item = example_item ''http://schema.org/p'' [''rdf:Property''],
         pt_comment = None, pt_types = [0]\<rparr>\<rparr>"

definition lib_example_heap :: lib_heap where
  "lib_example_heap r =
     (if r = 0 then new_Builtin ''Text'' ''string'' ''Data type: Text.''
      else if r = 1 then (lib_example_class ''A'')\<lparr>lib_children := [2], lib_props := [lib_example_property]\<rparr>
      else if r = 2 then (lib_example_class ''B'')\<lparr>lib_parents := [1]\<rparr>
      else if r = 3 then (lib_example_class ''C'')\<lparr>lib_parents := [0]\<rparr>
      else if r = 4 then (lib_example_class ''E'')\<lparr>lib_children := [5]\<rparr>
      else if r = 5 then (lib_example_class ''F'')\<lparr>lib_parents := [4]\<rparr>
      else lib_new_Class empty_item)"

text \<open>
  A second heap for src/ts/class.ts: \<open>G\<close> (0) whose children were added in the order
  \<open>I\<close> (2), \<open>H\<close> (1).
\<close>

definition example_heap2 :: heap where
  "example_heap2 r =
     (if r = 0 then (example_class ClassK ''G'')\<lparr>children := [2, 1]\<rparr>
      else if r = 1 then (example_class ClassK ''H'')\<lparr>parents := [0]\<rparr>
      else if r = 2 then (example_class ClassK ''I'')\<lparr>parents := [0]\<rparr>
      else example_class ClassK ''Unused'')"

text \<open>
  A third heap for src/ts/class.ts: \<open>M\<close> (0) with a comment and the property \<open>p\<close>,
  superseded by \<open>N\<close> (1) and \<open>O\<close> (2).
\<close>

definition example_heap3 :: heap where
  "example_heap3 r =
     (if r = 0 then (example_class ClassK ''M'')
                      \<lparr>u_comment := Some ''Old.'', u_props := [example_property],
                       u_supersededBy := [1, 2]\<rparr>
      else if r = 1 then example_class ClassK ''N''
      else if r = 2 then example_class ClassK ''O''
      else example_class ClassK ''Unused'')"

text \<open>
  What is asked of the host's \<^verbatim>\<open>localeCompare\<close>: the sign of the result flips with the
  arguments, and "not after" is transitive.
\<close>

definition comparator :: "(string \<Rightarrow> string \<Rightarrow> int) \<Rightarrow> bool" where
  "comparator localeCompare =
     ((\<forall>x y. (localeCompare x y < 0) = (localeCompare y x > 0)) \<and>
      (\<forall>x y z. localeCompare x y \<le> 0 \<and> localeCompare y z \<le> 0 \<longrightarrow> localeCompare x z \<le> 0))"

text \<open>Two built-ins named \<open>Text\<close> whose identifiers differ in the scheme.\<close>

definition example_builtin_http :: Class where
  "example_builtin_http = example_class (BuiltinK ''string'' ''Data type: Text.'') ''Text''"

definition example_builtin_https :: Class where
  "example_builtin_https =
     (example_class (BuiltinK ''string'' ''Data type: Text.'') ''Text'')
       \<lparr>subject := (example_subject ''Text'')
          \<lparr>href := ''https://schema.org/Text'', toString := ''https://schema.org/Text''\<rparr>\<rparr>"

text \<open>
  Graph items for the generator of run.ts: the classes \<open>A\<close> and \<open>B\<close>; the class \<open>C\<close>, a
  subclass of \<open>A\<close> and of \<open>Missing\<close>, which no item declares; the class \<open>D\<close>, a subclass
  of \<open>A\<close> and of \<open>B\<close>; the property \<open>p\<close> of \<open>A\<close> with range \<open>Text\<close>; and \<open>v\<close>, tagged as
  a property and as a member of the enumeration class \<open>A\<close>.
\<close>

definition item_A :: JsonLdGraphItem where
  "item_A = example_item ''http://schema.org/A'' [''rdfs:Class'']"

definition item_B :: JsonLdGraphItem where
  "item_B = example_item ''http://schema.org/B'' [''rdfs:Class'']"

definition item_C :: JsonLdGraphItem where
  "item_C = (example_item ''http://schema.org/C'' [''rdfs:Class''])
              \<lparr>ld_subClassOf := Some (Many [ObjectReference ''http://schema.org/A'',
                                           ObjectReference ''http://schema.org/Missing''])\<rparr>"

definition item_D :: JsonLdGraphItem where
  "item_D = (example_item ''http://schema.org/D'' [''rdfs:Class''])
              \<lparr>ld_subClassOf := Some (Many [ObjectReference ''http://schema.org/A'',
                                           ObjectReference ''http://schema.org/B''])\<rparr>"

definition item_p :: JsonLdGraphItem where
  "item_p = (example_item ''http://schema.org/p'' [''rdf:Property''])
              \<lparr>ld_domainIncludes := Some (One (ObjectReference ''http://schema.org/A'')),
               ld_rangeIncludes := Some (One (ObjectReference ''http://schema.org/Text''))\<rparr>"

definition item_v :: JsonLdGraphItem where
  "item_v = example_item ''http://schema.org/v'' [''rdf:Property'', ''http://schema.org/A'']"

text \<open>
  Two more properties for lib/toProperty.ts: \<open>q\<close>, whose range is \<open>Text\<close> (0) and \<open>A\<close> (1),
  and \<open>r\<close>, whose range is empty.
\<close>

definition lib_example_union_property :: LibProperty where
  "lib_example_union_property =
     \<lparr>lib_key = ''q'',
      lib_type = OfPropertyType
        \<lparr>pt_item = example_item ''http://schema.org/q'' [''rdf:Property''],
         pt_comment = None, pt_types = [0, 1]\<rparr>\<rparr>"

definition lib_example_never_property :: LibProperty where
  "lib_example_never_property =
     \<lparr>lib_key = ''r'',
      lib_type = OfPropertyType
        \<lparr>pt_item = example_item ''http://schema.org/r'' [''rdf:Property''],
         pt_comment = None, pt_types = []\<rparr>\<rparr>"





section \<open>Notions used to state the properties\<close>

text \<open>
  \<open>ancestor h c a\<close>: \<open>a\<close> is reached from \<open>c\<close> through one or more parent edges of the heap
  \<open>h\<close>. A class has a built-in ancestor when one of its ancestors is a \<^verbatim>\<open>Builtin\<close>.
\<close>

inductive ancestor :: "heap \<Rightarrow> ref \<Rightarrow> ref \<Rightarrow> bool" for h where
  parent: "p \<in> set (parents (h c)) \<Longrightarrow> ancestor h c p"
| step: "p \<in> set (parents (h c)) \<Longrightarrow> ancestor h p a \<Longrightarrow> ancestor h c a"

definition hasBuiltinAncestor :: "heap \<Rightarrow> ref \<Rightarrow> bool" where
  "hasBuiltinAncestor h c = (\<exists>a. ancestor h c a \<and> instanceofBuiltin (h a))"

text \<open>
  The parent relation of \<open>h\<close> is acyclic when some rank decreases along every parent
  edge. The rank of a class bounds the depth of the recursion of \<^verbatim>\<open>aliasesBuiltin\<close>.
\<close>

definition acyclic_by :: "heap \<Rightarrow> (ref \<Rightarrow> nat) \<Rightarrow> bool" where
  "acyclic_by h rank = (\<forall>c. \<forall>p \<in> set (parents (h c)). rank p < rank c)"

text \<open>The members of the object literal of a base shape.\<close>

fun own_members :: "TypeNode \<Rightarrow> PropertySignature list" where
  "own_members (TypeLiteralNode ms) = ms"
| "own_members (IntersectionTypeNode [pn, TypeLiteralNode ms]) = ms"
| "own_members t = []"

text \<open>The properties that \<^verbatim>\<open>baseNode\<close> emits: those of \<^verbatim>\<open>properties()\<close> that pass its filter.\<close>

definition emitted_properties ::
    "(string \<Rightarrow> string \<Rightarrow> int) \<Rightarrow> nat \<Rightarrow> bool \<Rightarrow> heap \<Rightarrow> ref \<Rightarrow> error + PropertyLike list" where
  "emitted_properties localeCompare d skipDeprecatedProperties h this =
     (case properties localeCompare d h this of
        Inl e \<Rightarrow> Inl e
      | Inr (props, h1) \<Rightarrow>
          Inr (filter (\<lambda>property. \<not> pl_deprecated property \<or> \<not> skipDeprecatedProperties)
                 props))"

text \<open>The same notions for the heap of lib/toClass.ts.\<close>

inductive lib_ancestor :: "lib_heap \<Rightarrow> ref \<Rightarrow> ref \<Rightarrow> bool" for h where
  lib_parent: "p \<in> set (lib_parents (h c)) \<Longrightarrow> lib_ancestor h c p"
| lib_step: "p \<in> set (lib_parents (h c)) \<Longrightarrow> lib_ancestor h p a \<Longrightarrow> lib_ancestor h c a"

definition lib_hasBuiltinAncestor :: "lib_heap \<Rightarrow> ref \<Rightarrow> bool" where
  "lib_hasBuiltinAncestor h c = (\<exists>a. lib_ancestor h c a \<and> lib_instanceofBuiltin (h a))"

definition lib_acyclic_by :: "lib_heap \<Rightarrow> (ref \<Rightarrow> nat) \<Rightarrow> bool" where
  "lib_acyclic_by h rank = (\<forall>c. \<forall>p \<in> set (lib_parents (h c)). rank p < rank c)"

text \<open>The order in which \<^verbatim>\<open>properties()\<close> leaves \<^verbatim>\<open>_props\<close>.\<close>

definition sorted_props :: "(string \<Rightarrow> string \<Rightarrow> int) \<Rightarrow> Class \<Rightarrow> Property list" where
  "sorted_props localeCompare c =
     sort_cmp (\<lambda>a b. CompareKeys localeCompare (key a) (key b)) (u_props c)"

text \<open>
  The order in which \<^verbatim>\<open>nonEnumType\<close> leaves \<^verbatim>\<open>children\<close>, and the node that refers to the
  children by name: the reference itself for one child, the parenthesized union of the
  references for several.
\<close>

definition sorted_children :: "(string \<Rightarrow> string \<Rightarrow> int) \<Rightarrow> heap \<Rightarrow> ref \<Rightarrow> ref list" where
  "sorted_children localeCompare h this =
     sort_cmp (\<lambda>a b. CompareKeys localeCompare (subject (h a)) (subject (h b)))
       (children (h this))"

definition children_union :: "string list \<Rightarrow> TypeNode" where
  "children_union names =
     (case names of
        [a] \<Rightarrow> TypeReferenceNode a
      | _ \<Rightarrow> ParenthesizedType (UnionTypeNode (map TypeReferenceNode names)))"

text \<open>
  The heap without the supersession facts, and the deprecation notice that names the
  replacement classes.
\<close>

definition without_supersession :: "heap \<Rightarrow> heap" where
  "without_supersession h = (\<lambda>r. (h r)\<lparr>u_supersededBy := []\<rparr>)"

definition deprecation_notice :: "string list \<Rightarrow> string" where
  "deprecation_notice names = ''@deprecated Use '' @ join '' or '' names @ '' instead.''"











section \<open>Merging declarations of one subject\<close>

lemma set_set_values: "set (set_values xs) = set xs"
proof (induction xs rule: set_values.induct)
  case 1
  show ?case by simp
next
  case (2 x xs)
  then show ?case by auto
qed

lemma distinct_set_values: "distinct (set_values xs)"
proof (induction xs rule: set_values.induct)
  case 1
  show ?case by simp
next
  case (2 x xs)
  then show ?case by (simp add: set_set_values)
qed

lemma ToArray_falsy: "\<not> truthy t x \<Longrightarrow> ToArray t x = []"
  by (cases "(t, x)" rule: truthy.cases) auto

lemma ref_id_comp: "ref_id \<circ> ObjectReference = id"
  by (rule ext) simp

lemma ids_of_combineRef:
  "map ref_id (combineRef x y) =
     set_values (map ref_id (ToArray truthy_object x @ ToArray truthy_object y))"
  by (simp add: combineRef_def ref_id_comp)

lemma set_ids_of_combineRef:
  "ref_id ` set (combineRef x y) =
     ref_id ` set (ToArray truthy_object x) \<union> ref_id ` set (ToArray truthy_object y)"
proof -
  have "ref_id ` set (combineRef x y) = set (map ref_id (combineRef x y))"
    by simp
  also have "\<dots> = set (map ref_id (ToArray truthy_object x @ ToArray truthy_object y))"
    by (simp only: ids_of_combineRef set_set_values)
  finally show ?thesis by simp
qed

lemma merge_domain:
  "set (domain_ids (merge_into a b)) = set (domain_ids a) \<union> set (domain_ids b)"
  by (auto simp: merge_into_def domain_ids_def Let_def set_ids_of_combineRef ToArray_falsy)

lemma merge_range:
  "set (range_ids (merge_into a b)) = set (range_ids a) \<union> set (range_ids b)"
  by (auto simp: merge_into_def range_ids_def Let_def set_ids_of_combineRef ToArray_falsy)

lemma merge_types:
  "set (type_tags (merge_into a b)) = set (type_tags a) \<union> set (type_tags b)"
  by (auto simp: merge_into_def type_tags_def Let_def combineString_def set_set_values
      ToArray_falsy)

lemma merge_domain_distinct:
  "ld_domainIncludes b \<noteq> None \<Longrightarrow> distinct (domain_ids (merge_into a b))"
  by (cases "(truthy_object, ld_domainIncludes b)" rule: truthy.cases)
     (auto simp: merge_into_def domain_ids_def Let_def ids_of_combineRef distinct_set_values
        truthy_object_def)

lemma group_two:
  "kept a \<Longrightarrow> kept b \<Longrightarrow> ld_id a = ld_id b \<Longrightarrow>
   group [Item a, Item b] [] = [(ld_id a, merge_into a b)]"
  by (simp add: kept_def map_get_def)

text \<open>
  C7. Two declarations \<open>a\<close> and \<open>b\<close> of one subject that \<^verbatim>\<open>group\<close> does not skip merge
  into one item, whichever comes first. The identifiers of its domain are those of \<open>a\<close>
  and of \<open>b\<close> together, and the same set in both orders; so are the identifiers of its
  range and its type tags, each read with \<^verbatim>\<open>ToArray\<close> as the merge reads them. When both
  declarations supply a domain, no identifier occurs twice in the merged domain.
\<close>

theorem merge_is_order_insensitive:
  assumes "kept a" and "kept b" and "ld_id a = ld_id b"
  shows "\<exists>ab ba.
           group [Item a, Item b] [] = [(ld_id a, ab)] \<and>
           group [Item b, Item a] [] = [(ld_id a, ba)] \<and>
           set (domain_ids ab) = set (domain_ids a) \<union> set (domain_ids b) \<and>
           set (domain_ids ba) = set (domain_ids ab) \<and>
           set (range_ids ab) = set (range_ids a) \<union> set (range_ids b) \<and>
           set (range_ids ba) = set (range_ids ab) \<and>
           set (type_tags ab) = set (type_tags a) \<union> set (type_tags b) \<and>
           set (type_tags ba) = set (type_tags ab) \<and>
           (ld_domainIncludes a \<noteq> None \<and> ld_domainIncludes b \<noteq> None \<longrightarrow>
              distinct (domain_ids ab) \<and> distinct (domain_ids ba))"
proof -
  have ab: "group [Item a, Item b] [] = [(ld_id a, merge_into a b)]"
    using assms by (rule group_two)
  have ba: "group [Item b, Item a] [] = [(ld_id a, merge_into b a)]"
    using group_two [of b a] assms by simp
  have "set (domain_ids (merge_into b a)) = set (domain_ids (merge_into a b))"
    by (simp only: merge_domain Un_commute)
  moreover have "set (range_ids (merge_into b a)) = set (range_ids (merge_into a b))"
    by (simp only: merge_range Un_commute)
  moreover have "set (type_tags (merge_into b a)) = set (type_tags (merge_into a b))"
    by (simp only: merge_types Un_commute)
  ultimately show ?thesis
    using ab ba merge_domain [of a b] merge_range [of a b] merge_types [of a b]
      merge_domain_distinct [of b a] merge_domain_distinct [of a b]
    by blast
qed

text \<open>
  The scenario of the specification: one declaration with domain \<open>X\<close> and one with domain
  \<open>Y\<close> give the domain \<open>{X, Y}\<close> in both orders (as arrays, \<open>[X, Y]\<close> and \<open>[Y, X]\<close>).
\<close>

theorem merge_is_order_insensitive_witness:
  "kept decl_X \<and> kept decl_Y \<and> ld_id decl_X = ld_id decl_Y \<and>
   map (domain_ids \<circ> snd) (group [Item decl_X, Item decl_Y] []) =
     [[''http://schema.org/X'', ''http://schema.org/Y'']] \<and>
   map (domain_ids \<circ> snd) (group [Item decl_Y, Item decl_X] []) =
     [[''http://schema.org/Y'', ''http://schema.org/X'']] \<and>
   (\<exists>ab ba.
      group [Item decl_X, Item decl_Y] [] = [(ld_id decl_X, ab)] \<and>
      group [Item decl_Y, Item decl_X] [] = [(ld_id decl_X, ba)] \<and>
      set (domain_ids ab) = {''http://schema.org/X'', ''http://schema.org/Y''} \<and>
      set (domain_ids ba) = set (domain_ids ab) \<and>
      distinct (domain_ids ab) \<and> distinct (domain_ids ba))"
proof -
  have k: "kept decl_X" "kept decl_Y" "ld_id decl_X = ld_id decl_Y"
    by (simp_all add: kept_def decl_X_def decl_Y_def example_item_def IsSourceOnly_def
        IsSoftwareVersionOnly_def IsCloseMatch_def IsTestComment_def)
  have d: "domain_ids decl_X = [''http://schema.org/X'']"
    "domain_ids decl_Y = [''http://schema.org/Y'']"
    "ld_domainIncludes decl_X \<noteq> None" "ld_domainIncludes decl_Y \<noteq> None"
    by (simp_all add: domain_ids_def decl_X_def decl_Y_def example_item_def truthy_object_def)
  have m: "domain_ids (merge_into decl_X decl_Y) = [''http://schema.org/X'', ''http://schema.org/Y'']"
    "domain_ids (merge_into decl_Y decl_X) = [''http://schema.org/Y'', ''http://schema.org/X'']"
    by (simp_all add: merge_into_def Let_def domain_ids_def decl_X_def decl_Y_def
        example_item_def truthy_object_def truthy_string_def combineRef_def combineString_def)
  from merge_is_order_insensitive [OF k] obtain ab ba where
    *: "group [Item decl_X, Item decl_Y] [] = [(ld_id decl_X, ab)]"
       "group [Item decl_Y, Item decl_X] [] = [(ld_id decl_X, ba)]"
       "set (domain_ids ab) = set (domain_ids decl_X) \<union> set (domain_ids decl_Y)"
       "set (domain_ids ba) = set (domain_ids ab)"
       "distinct (domain_ids ab)" "distinct (domain_ids ba)"
    using d by blast
  have g: "group [Item decl_X, Item decl_Y] [] = [(ld_id decl_X, merge_into decl_X decl_Y)]"
    "group [Item decl_Y, Item decl_X] [] = [(ld_id decl_X, merge_into decl_Y decl_X)]"
    using group_two [OF k] group_two [of decl_Y decl_X] k by simp_all
  have ab: "ab = merge_into decl_X decl_Y" and ba: "ba = merge_into decl_Y decl_X"
    using * g by simp_all
  have s: "set (domain_ids ab) = {''http://schema.org/X'', ''http://schema.org/Y''}"
    by (simp add: ab m)
  have l: "map (domain_ids \<circ> snd) (group [Item decl_X, Item decl_Y] []) =
             [[''http://schema.org/X'', ''http://schema.org/Y'']]"
    "map (domain_ids \<circ> snd) (group [Item decl_Y, Item decl_X] []) =
             [[''http://schema.org/Y'', ''http://schema.org/X'']]"
    by (simp_all only: g m list.map comp_apply snd_conv)
  show ?thesis
    using k l *(1,2,4,5,6) s by blast
qed

section \<open>Leaves and built-in ancestors\<close>

lemma hasBuiltinAncestor_unfold:
  "hasBuiltinAncestor h c =
     (\<exists>p \<in> set (parents (h c)). instanceofBuiltin (h p) \<or> hasBuiltinAncestor h p)"
proof
  assume "hasBuiltinAncestor h c"
  then obtain a where a: "ancestor h c a" "instanceofBuiltin (h a)"
    by (auto simp: hasBuiltinAncestor_def)
  from a(1) show "\<exists>p \<in> set (parents (h c)). instanceofBuiltin (h p) \<or> hasBuiltinAncestor h p"
    using a(2) by (cases rule: ancestor.cases) (auto simp: hasBuiltinAncestor_def)
next
  assume "\<exists>p \<in> set (parents (h c)). instanceofBuiltin (h p) \<or> hasBuiltinAncestor h p"
  then show "hasBuiltinAncestor h c"
    by (auto simp: hasBuiltinAncestor_def intro: ancestor.parent ancestor.step)
qed

lemma aliasesBuiltin_sound:
  "aliasesBuiltin d h c = Inr b \<Longrightarrow> b = hasBuiltinAncestor h c"
  "aliasesBuiltin_for d h ps = Inr b \<Longrightarrow>
     b = (\<exists>p \<in> set ps. instanceofBuiltin (h p) \<or> hasBuiltinAncestor h p)"
proof (induction d h c and d h ps arbitrary: b and b rule: aliasesBuiltin_aliasesBuiltin_for.induct)
  case (1 h this)
  then show ?case by simp
next
  case (2 d h this)
  then show ?case by (simp add: hasBuiltinAncestor_unfold [of h this])
next
  case (3 d h)
  then show ?case by simp
next
  case (4 d h parent rest)
  show ?case
  proof (cases "instanceofBuiltin (h parent)")
    case True
    with 4 show ?thesis by simp
  next
    case False
    with "4.prems" obtain b' where b': "aliasesBuiltin d h parent = Inr b'"
      by (auto split: sum.splits)
    with "4.IH"(1) False have eq: "b' = hasBuiltinAncestor h parent" by simp
    show ?thesis
    proof (cases b')
      case True
      with False b' "4.prems" eq show ?thesis by simp
    next
      case nb: False
      with False b' "4.prems" have "aliasesBuiltin_for d h rest = Inr b" by simp
      with "4.IH"(2) False b' nb
      have "b = (\<exists>p \<in> set rest. instanceofBuiltin (h p) \<or> hasBuiltinAncestor h p)" by simp
      with False nb eq show ?thesis by simp
    qed
  qed
qed

lemma aliasesBuiltin_total:
  "acyclic_by h rank \<Longrightarrow> rank c < d \<Longrightarrow> \<exists>b. aliasesBuiltin d h c = Inr b"
  "acyclic_by h rank \<Longrightarrow> \<forall>p \<in> set ps. rank p < d \<Longrightarrow>
     \<exists>b. aliasesBuiltin_for d h ps = Inr b"
proof (induction d h c and d h ps rule: aliasesBuiltin_aliasesBuiltin_for.induct)
  case (1 h this)
  then show ?case by simp
next
  case (2 d h this)
  from "2.prems" have "\<forall>p \<in> set (parents (h this)). rank p < d"
    by (fastforce simp: acyclic_by_def)
  with "2.IH" "2.prems"(1) show ?case by simp
next
  case (3 d h)
  show ?case by auto
next
  case (4 d h parent rest)
  show ?case
  proof (cases "instanceofBuiltin (h parent)")
    case True
    then show ?thesis by auto
  next
    case False
    from "4.prems" have "rank parent < d" by simp
    from "4.IH"(1) [OF False "4.prems"(1) this]
    obtain b' where b': "aliasesBuiltin d h parent = Inr b'" by blast
    show ?thesis
    proof (cases b')
      case True
      with False b' show ?thesis by auto
    next
      case nb: False
      from "4.prems" have "\<forall>p \<in> set rest. rank p < d" by simp
      from "4.IH"(2) [OF False b' nb "4.prems"(1) this] False b' nb
      show ?thesis by auto
    qed
  qed
qed

lemma aliasesBuiltin_cong:
  assumes "\<And>r. parents (h' r) = parents (h r)"
    and "\<And>r. instanceofBuiltin (h' r) = instanceofBuiltin (h r)"
  shows "aliasesBuiltin d h' c = aliasesBuiltin d h c"
    and "aliasesBuiltin_for d h' ps = aliasesBuiltin_for d h ps"
  using assms
  by (induction d h c and d h ps rule: aliasesBuiltin_aliasesBuiltin_for.induct)
     (auto split: sum.splits)

section \<open>The base shape (src/ts/class.ts)\<close>

lemma mapE_total:
  "\<forall>x \<in> set xs. \<exists>y. f x = Inr y \<Longrightarrow> \<exists>ys. mapE f xs = Inr ys \<and> length ys = length xs"
proof (induction xs)
  case Nil
  show ?case by simp
next
  case (Cons x xs)
  then obtain y ys where "f x = Inr y" "mapE f xs = Inr ys" "length ys = length xs"
    by auto
  then show ?case by simp
qed

lemma mapE_length: "mapE f xs = Inr ys \<Longrightarrow> length ys = length xs"
  by (induction xs arbitrary: ys) (auto split: sum.splits)

lemma mapE_OwnProperty: "mapE pl_toNode (map OwnProperty ps) = Inr (map rendered ps)"
  by (induction ps) auto

lemma isLeaf_value:
  assumes "acyclic_by h rank" and "rank this < d"
  shows "isLeaf d h this = Inr (children (h this) = [] \<and> \<not> hasBuiltinAncestor h this)"
proof -
  from aliasesBuiltin_total(1) [OF assms] obtain b where b: "aliasesBuiltin d h this = Inr b"
    by blast
  from aliasesBuiltin_sound(1) [OF b] b show ?thesis
    by (simp add: isLeaf_def)
qed

lemma properties_value:
  assumes "acyclic_by h rank" and "rank this < d"
  shows "properties lc d h this =
     Inr ((if children (h this) = [] \<and> \<not> hasBuiltinAncestor h this
           then [TypeProperty (subject (h this))] else []) @
          map OwnProperty (sorted_props lc (h this)),
          h(this := (h this)\<lparr>u_props := sorted_props lc (h this)\<rparr>))"
proof -
  let ?h1 = "h(this := (h this)\<lparr>u_props := sorted_props lc (h this)\<rparr>)"
  have "aliasesBuiltin d ?h1 this = aliasesBuiltin d h this"
    by (rule aliasesBuiltin_cong) (simp_all add: instanceofBuiltin_def)
  then have "isLeaf d ?h1 this = isLeaf d h this"
    by (simp add: isLeaf_def)
  with isLeaf_value [OF assms] show ?thesis
    by (simp add: properties_def sorted_props_def Let_def)
qed


lemma emitted_own:
  "mapE pl_toNode
     (filter (\<lambda>property. \<not> pl_deprecated property \<or> \<not> skip) (map OwnProperty ps)) =
   Inr (map rendered (filter (\<lambda>p. \<not> deprecated p \<or> \<not> skip) ps))"
  by (induction ps) auto

lemma emitted_leaf:
  "toClassName s = Inr n \<Longrightarrow>
   mapE pl_toNode
     (filter (\<lambda>property. \<not> pl_deprecated property \<or> \<not> skip)
        (TypeProperty s # map OwnProperty ps)) =
   Inr (PropertySignature None ''@type'' False (LiteralTypeNode n) #
        map rendered (filter (\<lambda>p. \<not> deprecated p \<or> \<not> skip) ps))"
  using emitted_own [of skip ps] by simp

lemma baseNode_unfold:
  assumes "properties lc d h this = Inr (props, h1)"
    and "mapE pl_toNode (filter (\<lambda>property. \<not> pl_deprecated property \<or> \<not> skip) props) =
           Inr members"
    and "mapE (\<lambda>parent. baseName (h1 parent)) (parents (h1 this)) = Inr names"
  shows "baseNode lc d skip h this =
     Inr (case names of
            [] \<Rightarrow> if members = [] then KeywordTypeNode NeverKeyword else TypeLiteralNode members
          | [a] \<Rightarrow>
              if members = [] then TypeReferenceNode a
              else IntersectionTypeNode [TypeReferenceNode a, TypeLiteralNode members]
          | a # b # c \<Rightarrow>
              if members = []
              then ParenthesizedType (IntersectionTypeNode (map TypeReferenceNode names))
              else IntersectionTypeNode
                     [ParenthesizedType (IntersectionTypeNode (map TypeReferenceNode names)),
                      TypeLiteralNode members], h1)"
  using assms by (cases names rule: remdups_adj.cases) (simp_all add: baseNode_def Let_def)

lemma baseNode_value:
  assumes acyc: "acyclic_by h rank" and rk: "rank this < d"
    and nm: "toClassName (subject (h this)) = Inr n"
    and pn: "\<forall>p \<in> set (parents (h this)). \<exists>m. baseName (h p) = Inr m"
  shows "\<exists>node h'.
           baseNode lc d skip h this = Inr (node, h') \<and>
           own_members node =
             (if children (h this) = [] \<and> \<not> hasBuiltinAncestor h this
              then [PropertySignature None ''@type'' False (LiteralTypeNode n)] else []) @
             map rendered (filter (\<lambda>p. \<not> deprecated p \<or> \<not> skip) (sorted_props lc (h this))) \<and>
           (node = KeywordTypeNode NeverKeyword \<longleftrightarrow>
              parents (h this) = [] \<and>
              \<not> (children (h this) = [] \<and> \<not> hasBuiltinAncestor h this) \<and>
              filter (\<lambda>p. \<not> deprecated p \<or> \<not> skip) (sorted_props lc (h this)) = [])"
proof -
  let ?h1 = "h(this := (h this)\<lparr>u_props := sorted_props lc (h this)\<rparr>)"
  let ?own = "filter (\<lambda>p. \<not> deprecated p \<or> \<not> skip) (sorted_props lc (h this))"
  let ?leaf = "children (h this) = [] \<and> \<not> hasBuiltinAncestor h this"
  let ?members = "(if ?leaf then [PropertySignature None ''@type'' False (LiteralTypeNode n)]
                   else []) @ map rendered ?own"
  have bn: "\<And>p. baseName (?h1 p) = baseName (h p)"
    by (simp add: baseName_def instanceofBuiltin_def)
  have par: "parents (?h1 this) = parents (h this)" by simp
  from mapE_total [of "parents (h this)" "\<lambda>p. baseName (h p)"] pn
  obtain names where names: "mapE (\<lambda>p. baseName (h p)) (parents (h this)) = Inr names"
    "length names = length (parents (h this))" by blast
  have names1: "mapE (\<lambda>parent. baseName (?h1 parent)) (parents (?h1 this)) = Inr names"
    using names(1) by (simp only: bn par)
  have e: "names = [] \<longleftrightarrow> parents (h this) = []"
    using names(2) by auto
  have mem: "mapE pl_toNode (filter (\<lambda>property. \<not> pl_deprecated property \<or> \<not> skip)
               ((if ?leaf then [TypeProperty (subject (h this))] else []) @
                map OwnProperty (sorted_props lc (h this)))) = Inr ?members"
    using emitted_leaf [OF nm, of skip "sorted_props lc (h this)"]
      emitted_own [of skip "sorted_props lc (h this)"]
    by (cases ?leaf) simp_all
  note v = baseNode_unfold [OF properties_value [OF acyc rk] mem names1]
  have m: "?members = [] \<longleftrightarrow> \<not> ?leaf \<and> ?own = []" by simp
  show ?thesis
    unfolding v
    by (cases names rule: remdups_adj.cases; cases "?members = []")
       (use e m in \<open>auto simp del: fun_upd_apply\<close>)
qed

section \<open>The base shape (lib/toClass.ts)\<close>

lemma lib_hasBuiltinAncestor_unfold:
  "lib_hasBuiltinAncestor h c =
     (\<exists>p \<in> set (lib_parents (h c)). lib_instanceofBuiltin (h p) \<or> lib_hasBuiltinAncestor h p)"
proof
  assume "lib_hasBuiltinAncestor h c"
  then obtain a where a: "lib_ancestor h c a" "lib_instanceofBuiltin (h a)"
    by (auto simp: lib_hasBuiltinAncestor_def)
  from a(1) show "\<exists>p \<in> set (lib_parents (h c)). lib_instanceofBuiltin (h p) \<or> lib_hasBuiltinAncestor h p"
    using a(2) by (cases rule: lib_ancestor.cases) (auto simp: lib_hasBuiltinAncestor_def)
next
  assume "\<exists>p \<in> set (lib_parents (h c)). lib_instanceofBuiltin (h p) \<or> lib_hasBuiltinAncestor h p"
  then show "lib_hasBuiltinAncestor h c"
    by (auto simp: lib_hasBuiltinAncestor_def intro: lib_ancestor.lib_parent lib_ancestor.lib_step)
qed

lemma lib_aliasesBuiltin_sound:
  "lib_aliasesBuiltin d h c = Inr b \<Longrightarrow> b = lib_hasBuiltinAncestor h c"
  "lib_aliasesBuiltin_for d h ps = Inr b \<Longrightarrow>
     b = (\<exists>p \<in> set ps. lib_instanceofBuiltin (h p) \<or> lib_hasBuiltinAncestor h p)"
proof (induction d h c and d h ps arbitrary: b and b rule: lib_aliasesBuiltin_lib_aliasesBuiltin_for.induct)
  case (1 h this)
  then show ?case by simp
next
  case (2 d h this)
  then show ?case by (simp add: lib_hasBuiltinAncestor_unfold [of h this])
next
  case (3 d h)
  then show ?case by simp
next
  case (4 d h parent rest)
  show ?case
  proof (cases "lib_instanceofBuiltin (h parent)")
    case True
    with 4 show ?thesis by simp
  next
    case False
    with "4.prems" obtain b' where b': "lib_aliasesBuiltin d h parent = Inr b'"
      by (auto split: sum.splits)
    with "4.IH"(1) False have eq: "b' = lib_hasBuiltinAncestor h parent" by simp
    show ?thesis
    proof (cases b')
      case True
      with False b' "4.prems" eq show ?thesis by simp
    next
      case nb: False
      with False b' "4.prems" have "lib_aliasesBuiltin_for d h rest = Inr b" by simp
      with "4.IH"(2) False b' nb
      have "b = (\<exists>p \<in> set rest. lib_instanceofBuiltin (h p) \<or> lib_hasBuiltinAncestor h p)" by simp
      with False nb eq show ?thesis by simp
    qed
  qed
qed

lemma lib_aliasesBuiltin_total:
  "lib_acyclic_by h rank \<Longrightarrow> rank c < d \<Longrightarrow> \<exists>b. lib_aliasesBuiltin d h c = Inr b"
  "lib_acyclic_by h rank \<Longrightarrow> \<forall>p \<in> set ps. rank p < d \<Longrightarrow>
     \<exists>b. lib_aliasesBuiltin_for d h ps = Inr b"
proof (induction d h c and d h ps rule: lib_aliasesBuiltin_lib_aliasesBuiltin_for.induct)
  case (1 h this)
  then show ?case by simp
next
  case (2 d h this)
  from "2.prems" have "\<forall>p \<in> set (lib_parents (h this)). rank p < d"
    by (fastforce simp: lib_acyclic_by_def)
  with "2.IH" "2.prems"(1) show ?case by simp
next
  case (3 d h)
  show ?case by auto
next
  case (4 d h parent rest)
  show ?case
  proof (cases "lib_instanceofBuiltin (h parent)")
    case True
    then show ?thesis by auto
  next
    case False
    from "4.prems" have "rank parent < d" by simp
    from "4.IH"(1) [OF False "4.prems"(1) this]
    obtain b' where b': "lib_aliasesBuiltin d h parent = Inr b'" by blast
    show ?thesis
    proof (cases b')
      case True
      with False b' show ?thesis by auto
    next
      case nb: False
      from "4.prems" have "\<forall>p \<in> set rest. rank p < d" by simp
      from "4.IH"(2) [OF False b' nb "4.prems"(1) this] False b' nb
      show ?thesis by auto
    qed
  qed
qed

lemma lib_aliasesBuiltin_cong:
  assumes "\<And>r. lib_parents (h' r) = lib_parents (h r)"
    and "\<And>r. lib_instanceofBuiltin (h' r) = lib_instanceofBuiltin (h r)"
  shows "lib_aliasesBuiltin d h' c = lib_aliasesBuiltin d h c"
    and "lib_aliasesBuiltin_for d h' ps = lib_aliasesBuiltin_for d h ps"
  using assms
  by (induction d h c and d h ps rule: lib_aliasesBuiltin_lib_aliasesBuiltin_for.induct)
     (auto split: sum.splits)

lemma lib_isLeaf_value:
  assumes "lib_acyclic_by h rank" and "rank this < d"
  shows "lib_isLeaf d h this =
           Inr (lib_children (h this) = [] \<and> \<not> lib_hasBuiltinAncestor h this)"
proof -
  from lib_aliasesBuiltin_total(1) [OF assms] obtain b where
    b: "lib_aliasesBuiltin d h this = Inr b" by blast
  from lib_aliasesBuiltin_sound(1) [OF b] b show ?thesis
    by (simp add: lib_isLeaf_def)
qed

lemma lib_properties_value:
  assumes "lib_acyclic_by h rank" and "rank this < d"
  shows "lib_properties tsn d h this =
     Inr ((if lib_children (h this) = [] \<and> \<not> lib_hasBuiltinAncestor h this
           then [\<lparr>lib_key = ''@type'',
                  lib_type = OfStringLiteralType (StringLiteralType (tsn (lib_item (h this))))\<rparr>]
           else []) @ lib_props (h this))"
  by (simp add: lib_properties_def lib_isLeaf_value [OF assms])

lemma lib_type_property_node:
  "property_toNode tsn h
     \<lparr>lib_key = ''@type'', lib_type = OfStringLiteralType (StringLiteralType v)\<rparr> =
   PropertySignature None ''@type'' False (LiteralTypeNode v)"
  by (simp add: property_toNode_def required_def startsWith_def typeNode_def scalarTypeNode_def)

lemma lib_baseNode_value:
  assumes acyc: "lib_acyclic_by h rank" and rk: "rank this < d"
  shows "\<exists>node.
           lib_baseNode tsn d h this = Inr node \<and>
           own_members node =
             (if lib_children (h this) = [] \<and> \<not> lib_hasBuiltinAncestor h this
              then [PropertySignature None ''@type'' False
                      (LiteralTypeNode (tsn (lib_item (h this))))] else []) @
             map (property_toNode tsn h) (lib_props (h this)) \<and>
           (node = KeywordTypeNode NeverKeyword \<longleftrightarrow>
              lib_parents (h this) = [] \<and>
              \<not> (lib_children (h this) = [] \<and> \<not> lib_hasBuiltinAncestor h this) \<and>
              lib_props (h this) = [])"
  unfolding lib_baseNode_def lib_properties_value [OF acyc rk]
  by (cases "lib_parents (h this)" rule: remdups_adj.cases;
      cases "lib_children (h this) = [] \<and> \<not> lib_hasBuiltinAncestor h this";
      cases "lib_props (h this) = []")
     (simp_all add: Let_def lib_type_property_node)

section \<open>Leaf discriminants and empty base shapes\<close>

lemma filter_OwnProperty:
  "filter (\<lambda>property. \<not> pl_deprecated property \<or> \<not> skip) (map OwnProperty ps) =
     map OwnProperty (filter (\<lambda>p. \<not> deprecated p \<or> \<not> skip) ps)"
  by (induction ps) auto

lemma emitted_properties_value:
  assumes "acyclic_by h rank" and "rank this < d"
  shows "emitted_properties lc d skip h this =
     Inr ((if children (h this) = [] \<and> \<not> hasBuiltinAncestor h this
           then [TypeProperty (subject (h this))] else []) @
          map OwnProperty
            (filter (\<lambda>p. \<not> deprecated p \<or> \<not> skip) (sorted_props lc (h this))))"
proof -
  have "filter (\<lambda>property. \<not> pl_deprecated property \<or> \<not> skip)
          (map OwnProperty (sorted_props lc (h this))) =
        map OwnProperty
          (filter (\<lambda>p. \<not> deprecated p \<or> \<not> skip) (sorted_props lc (h this)))"
    by (rule filter_OwnProperty)
  then show ?thesis
    by (simp add: emitted_properties_def properties_value [OF assms])
qed

text \<open>
  C10. \<^verbatim>\<open>baseNode\<close> of src/ts/class.ts and of lib/toClass.ts, for a class of an acyclic
  heap whose own name and whose parents' base names resolve: the base shape is the
  \<^verbatim>\<open>never\<close> keyword exactly when the class has no parent and emits no property (the
  discriminant of a leaf counts as an emitted property).
\<close>

theorem base_shape_never:
  assumes "acyclic_by h rank" and "rank this < d"
    and "toClassName (subject (h this)) = Inr n"
    and "\<forall>p \<in> set (parents (h this)). \<exists>m. baseName (h p) = Inr m"
    and "lib_acyclic_by lh lrank" and "lrank lthis < ld"
  shows "(\<exists>node h' ps.
            baseNode lc d skip h this = Inr (node, h') \<and>
            emitted_properties lc d skip h this = Inr ps \<and>
            (node = KeywordTypeNode NeverKeyword \<longleftrightarrow> parents (h this) = [] \<and> ps = [])) \<and>
         (\<exists>node ps.
            lib_baseNode tsn ld lh lthis = Inr node \<and>
            lib_properties tsn ld lh lthis = Inr ps \<and>
            (node = KeywordTypeNode NeverKeyword \<longleftrightarrow> lib_parents (lh lthis) = [] \<and> ps = []))"
proof
  from baseNode_value [OF assms(1-4), of lc skip] obtain node h' where
    *: "baseNode lc d skip h this = Inr (node, h')"
       "node = KeywordTypeNode NeverKeyword \<longleftrightarrow>
          parents (h this) = [] \<and>
          \<not> (children (h this) = [] \<and> \<not> hasBuiltinAncestor h this) \<and>
          filter (\<lambda>p. \<not> deprecated p \<or> \<not> skip) (sorted_props lc (h this)) = []"
    by blast
  show "\<exists>node h' ps.
          baseNode lc d skip h this = Inr (node, h') \<and>
          emitted_properties lc d skip h this = Inr ps \<and>
          (node = KeywordTypeNode NeverKeyword \<longleftrightarrow> parents (h this) = [] \<and> ps = [])"
    using * unfolding emitted_properties_value [OF assms(1,2)] by auto
next
  from lib_baseNode_value [OF assms(5,6), of tsn] obtain node where
    *: "lib_baseNode tsn ld lh lthis = Inr node"
       "node = KeywordTypeNode NeverKeyword \<longleftrightarrow>
          lib_parents (lh lthis) = [] \<and>
          \<not> (lib_children (lh lthis) = [] \<and> \<not> lib_hasBuiltinAncestor lh lthis) \<and>
          lib_props (lh lthis) = []"
    by blast
  show "\<exists>node ps.
          lib_baseNode tsn ld lh lthis = Inr node \<and>
          lib_properties tsn ld lh lthis = Inr ps \<and>
          (node = KeywordTypeNode NeverKeyword \<longleftrightarrow> lib_parents (lh lthis) = [] \<and> ps = [])"
    using * unfolding lib_properties_value [OF assms(5,6)] by auto
qed

lemma example_acyclic: "acyclic_by example_heap example_rank"
  by (simp add: acyclic_by_def example_heap_def example_rank_def example_class_def)

lemma lib_example_acyclic: "lib_acyclic_by lib_example_heap example_rank"
  by (simp add: lib_acyclic_by_def lib_example_heap_def example_rank_def lib_example_class_def
      lib_new_Class_def new_Builtin_def)

lemma example_names:
  "toClassName (subject (example_heap r)) =
     Inr (if r = 0 then ''Text'' else if r = 1 then ''A'' else if r = 2 then ''B''
          else if r = 3 then ''C'' else if r = 4 then ''E'' else if r = 5 then ''F''
          else ''Unused'')"
  by (simp add: example_heap_def example_class_def example_subject_def toClassName_def
      nameFromUrl_def)

lemma example_baseNames: "\<exists>m. baseName (example_heap r) = Inr m"
  by (simp add: baseName_def example_names)
     (simp add: example_heap_def example_class_def example_subject_def)

theorem base_shape_never_witness:
  "acyclic_by example_heap example_rank \<and> example_rank 4 < 2 \<and>
   toClassName (subject (example_heap 4)) = Inr ''E'' \<and>
   lib_acyclic_by lib_example_heap example_rank \<and>
   parents (example_heap 4) = [] \<and>
   emitted_properties example_compare 2 False example_heap 4 = Inr [] \<and>
   (\<exists>h'. baseNode example_compare 2 False example_heap 4 =
            Inr (KeywordTypeNode NeverKeyword, h')) \<and>
   lib_parents (lib_example_heap 4) = [] \<and>
   lib_properties example_scopedName 2 lib_example_heap 4 = Inr [] \<and>
   lib_baseNode example_scopedName 2 lib_example_heap 4 = Inr (KeywordTypeNode NeverKeyword)"
proof -
  have n: "toClassName (subject (example_heap 4)) = Inr ''E''"
    by (simp add: example_names)
  have r: "example_rank 4 < 2"
    by (simp add: example_rank_def)
  have p: "\<forall>p \<in> set (parents (example_heap 4)). \<exists>m. baseName (example_heap p) = Inr m"
    by (simp add: example_baseNames)
  have e: "parents (example_heap 4) = []" "lib_parents (lib_example_heap 4) = []"
    by (simp_all add: example_heap_def example_class_def lib_example_heap_def
        lib_example_class_def lib_new_Class_def)
  have l: "isLeaf 2 example_heap 4 = Inr False" "lib_isLeaf 2 lib_example_heap 4 = Inr False"
    by (simp_all add: isLeaf_def lib_isLeaf_def example_heap_def example_class_def
        lib_example_heap_def lib_example_class_def lib_new_Class_def)
  have ps: "emitted_properties example_compare 2 False example_heap 4 = Inr []"
    "lib_properties example_scopedName 2 lib_example_heap 4 = Inr []"
    using l
    by (simp_all add: emitted_properties_def properties_def isLeaf_def lib_properties_def
        Let_def sort_cmp_def example_heap_def example_class_def lib_example_heap_def
        lib_example_class_def lib_new_Class_def)
  from base_shape_never [OF example_acyclic r n p lib_example_acyclic r,
      of example_compare False example_scopedName]
  show ?thesis
    using e ps n r example_acyclic lib_example_acyclic by auto
qed


text \<open>
  C2. For a class of an acyclic heap whose own name and whose parents' base names
  resolve, \<^verbatim>\<open>isLeaf\<close> holds exactly when the class has no children and no built-in
  ancestor. The object literal of the base shape of a leaf is one discriminant field
  \<^verbatim>\<open>"@type"\<close>, mandatory, whose type is the literal of the class's own name, followed by
  the signatures of the class's own properties; the literal of any other class holds the
  signatures of its own properties only. Both hold for src/ts/class.ts and for
  lib/toClass.ts.
\<close>

theorem leaf_discriminant_injection:
  assumes "acyclic_by h rank" and "rank this < d"
    and "toClassName (subject (h this)) = Inr n"
    and "\<forall>p \<in> set (parents (h this)). \<exists>m. baseName (h p) = Inr m"
    and "lib_acyclic_by lh lrank" and "lrank lthis < ld"
  shows "(isLeaf d h this = Inr (children (h this) = [] \<and> \<not> hasBuiltinAncestor h this) \<and>
          (\<exists>node h'.
             baseNode lc d skip h this = Inr (node, h') \<and>
             own_members node =
               (if children (h this) = [] \<and> \<not> hasBuiltinAncestor h this
                then [PropertySignature None ''@type'' False (LiteralTypeNode n)] else []) @
               map rendered
                 (filter (\<lambda>p. \<not> deprecated p \<or> \<not> skip) (sorted_props lc (h this))))) \<and>
         (lib_isLeaf ld lh lthis =
            Inr (lib_children (lh lthis) = [] \<and> \<not> lib_hasBuiltinAncestor lh lthis) \<and>
          (\<exists>node.
             lib_baseNode tsn ld lh lthis = Inr node \<and>
             own_members node =
               (if lib_children (lh lthis) = [] \<and> \<not> lib_hasBuiltinAncestor lh lthis
                then [PropertySignature None ''@type'' False
                        (LiteralTypeNode (tsn (lib_item (lh lthis))))] else []) @
               map (property_toNode tsn lh) (lib_props (lh lthis))))"
  using baseNode_value [OF assms(1-4), of lc skip] isLeaf_value [OF assms(1,2)]
    lib_baseNode_value [OF assms(5,6), of tsn] lib_isLeaf_value [OF assms(5,6)]
  by blast

theorem leaf_discriminant_injection_witness:
  "acyclic_by example_heap example_rank \<and> example_rank 2 < 3 \<and>
   toClassName (subject (example_heap 2)) = Inr ''B'' \<and>
   lib_acyclic_by lib_example_heap example_rank \<and>
   isLeaf 3 example_heap 2 = Inr True \<and>
   (\<exists>node h'. baseNode example_compare 3 False example_heap 2 = Inr (node, h') \<and>
      own_members node = [PropertySignature None ''@type'' False (LiteralTypeNode ''B'')]) \<and>
   lib_isLeaf 3 lib_example_heap 2 = Inr True \<and>
   (\<exists>node. lib_baseNode example_scopedName 3 lib_example_heap 2 = Inr node \<and>
      own_members node = [PropertySignature None ''@type'' False (LiteralTypeNode ''B'')]) \<and>
   isLeaf 3 example_heap 3 = Inr False \<and>
   (\<exists>node h'. baseNode example_compare 3 False example_heap 3 = Inr (node, h') \<and>
      own_members node = []) \<and>
   isLeaf 3 example_heap 1 = Inr False \<and>
   (\<exists>node h'. baseNode example_compare 3 False example_heap 1 = Inr (node, h') \<and>
      own_members node = [rendered example_property])"
proof -
  have r: "example_rank 1 < 3" "example_rank 2 < 3" "example_rank 3 < 3"
    by (simp_all add: example_rank_def)
  have p: "\<And>r. \<forall>p \<in> set (parents (example_heap r)). \<exists>m. baseName (example_heap p) = Inr m"
    by (simp add: example_baseNames)
  have l: "isLeaf 3 example_heap 2 = Inr True" "isLeaf 3 example_heap 3 = Inr False"
    "isLeaf 3 example_heap 1 = Inr False"
    "lib_isLeaf 3 lib_example_heap 2 = Inr True"
    by (simp_all add: isLeaf_def lib_isLeaf_def example_heap_def example_class_def
        lib_example_heap_def lib_example_class_def lib_new_Class_def new_Builtin_def
        instanceofBuiltin_def lib_instanceofBuiltin_def numeral_3_eq_3)
  have s: "sorted_props example_compare (example_heap 1) = [example_property]"
    "sorted_props example_compare (example_heap 2) = []"
    "sorted_props example_compare (example_heap 3) = []"
    "lib_props (lib_example_heap 2) = []"
    "lib_item (lib_example_heap 2) = example_item ''http://schema.org/B'' [''rdfs:Class'']"
    "deprecated example_property = False"
    by (simp_all add: sorted_props_def sort_cmp_def example_heap_def example_class_def
        lib_example_heap_def lib_example_class_def lib_new_Class_def example_property_def)
  have n: "example_scopedName (example_item ''http://schema.org/B'' [''rdfs:Class'']) = ''B''"
    by (simp add: example_scopedName_def example_item_def)
  have nm: "toClassName (subject (example_heap 1)) = Inr ''A''"
    "toClassName (subject (example_heap 2)) = Inr ''B''"
    "toClassName (subject (example_heap 3)) = Inr ''C''"
    by (simp_all add: example_names)
  note t2 = leaf_discriminant_injection [OF example_acyclic r(2) nm(2) p
      lib_example_acyclic r(2), of example_compare False example_scopedName]
  note t3 = leaf_discriminant_injection [OF example_acyclic r(3) nm(3) p
      lib_example_acyclic r(2), of example_compare False example_scopedName]
  note t1 = leaf_discriminant_injection [OF example_acyclic r(1) nm(1) p
      lib_example_acyclic r(2), of example_compare False example_scopedName]
  have lf: "children (example_heap 2) = [] \<and> \<not> hasBuiltinAncestor example_heap 2"
    "\<not> (children (example_heap 3) = [] \<and> \<not> hasBuiltinAncestor example_heap 3)"
    "\<not> (children (example_heap 1) = [] \<and> \<not> hasBuiltinAncestor example_heap 1)"
    "lib_children (lib_example_heap 2) = [] \<and> \<not> lib_hasBuiltinAncestor lib_example_heap 2"
    using t1 t2 t3 l by simp_all
  have b2: "\<exists>node h'. baseNode example_compare 3 False example_heap 2 = Inr (node, h') \<and>
      own_members node = [PropertySignature None ''@type'' False (LiteralTypeNode ''B'')]"
    using t2 lf(1) s(2) by simp
  have b3: "\<exists>node h'. baseNode example_compare 3 False example_heap 3 = Inr (node, h') \<and>
      own_members node = []"
    using t3 lf(2) s(3) by auto
  have b1: "\<exists>node h'. baseNode example_compare 3 False example_heap 1 = Inr (node, h') \<and>
      own_members node = [rendered example_property]"
    using t1 lf(3) s(1,6) by auto
  have lb2: "\<exists>node. lib_baseNode example_scopedName 3 lib_example_heap 2 = Inr node \<and>
      own_members node = [PropertySignature None ''@type'' False (LiteralTypeNode ''B'')]"
    using t2 lf(4) s(4,5) n by simp
  show ?thesis
    using b1 b2 b3 lb2 l nm(2) r(2) example_acyclic lib_example_acyclic
    by blast
qed

section \<open>Multiplicity of properties (lib/toProperty.ts)\<close>

lemma scalarTypeNode_cases:
  "(\<forall>t. lib_type p = OfStringLiteralType t \<longrightarrow>
      scalarTypeNode tsn h p = LiteralTypeNode (literal_value t)) \<and>
   (\<forall>t. lib_type p = OfPropertyType t \<longrightarrow>
      (pt_types t = [] \<longrightarrow> scalarTypeNode tsn h p = KeywordTypeNode NeverKeyword) \<and>
      (\<forall>c. pt_types t = [c] \<longrightarrow>
         scalarTypeNode tsn h p = TypeReferenceNode (tsn (lib_item (h c)))) \<and>
      (2 \<le> length (pt_types t) \<longrightarrow>
         scalarTypeNode tsn h p =
           UnionTypeNode (map (\<lambda>c. TypeReferenceNode (tsn (lib_item (h c)))) (pt_types t))))"
proof -
  have u: "2 \<le> length (pt_types t) \<Longrightarrow> lib_type p = OfPropertyType t \<Longrightarrow>
         scalarTypeNode tsn h p =
           UnionTypeNode (map (\<lambda>c. TypeReferenceNode (tsn (lib_item (h c)))) (pt_types t))" for t
    by (cases "pt_types t" rule: remdups_adj.cases) (simp_all add: scalarTypeNode_def)
  then show ?thesis
    by (auto simp: scalarTypeNode_def)
qed

text \<open>
  C9. \<^verbatim>\<open>Property.toNode\<close> of lib/toProperty.ts. A property whose key does not start with
  \<^verbatim>\<open>@\<close> is optional and its type is the union of its scalar type with the array of that
  scalar type. A property whose key starts with \<^verbatim>\<open>@\<close> is mandatory and its type is the
  scalar type alone. The scalar type is the union of the range: for a \<^verbatim>\<open>PropertyType\<close> it
  is \<^verbatim>\<open>never\<close> when the range is empty, the reference to the class by its scoped name when
  the range is one class, and the union of the references to the classes of the range, in
  their order, when the range has two classes or more; for a \<^verbatim>\<open>StringLiteralType\<close> it is
  the literal type of its value.
\<close>

theorem property_multiplicity:
  "sig_name (property_toNode tsn h p) = lib_key p \<and>
   (\<not> startsWith (lib_key p) ''@'' \<longrightarrow>
      sig_questionToken (property_toNode tsn h p) \<and>
      \<not> required p \<and>
      sig_type (property_toNode tsn h p) =
        UnionTypeNode [scalarTypeNode tsn h p, ArrayTypeNode (scalarTypeNode tsn h p)]) \<and>
   (startsWith (lib_key p) ''@'' \<longrightarrow>
      \<not> sig_questionToken (property_toNode tsn h p) \<and>
      required p \<and>
      sig_type (property_toNode tsn h p) = scalarTypeNode tsn h p) \<and>
   (\<forall>t. lib_type p = OfStringLiteralType t \<longrightarrow>
      scalarTypeNode tsn h p = LiteralTypeNode (literal_value t)) \<and>
   (\<forall>t. lib_type p = OfPropertyType t \<longrightarrow>
      (pt_types t = [] \<longrightarrow> scalarTypeNode tsn h p = KeywordTypeNode NeverKeyword) \<and>
      (\<forall>c. pt_types t = [c] \<longrightarrow>
         scalarTypeNode tsn h p = TypeReferenceNode (tsn (lib_item (h c)))) \<and>
      (2 \<le> length (pt_types t) \<longrightarrow>
         scalarTypeNode tsn h p =
           UnionTypeNode (map (\<lambda>c. TypeReferenceNode (tsn (lib_item (h c)))) (pt_types t))))"
  using scalarTypeNode_cases [of p tsn h]
  by (simp add: property_toNode_def required_def typeNode_def Let_def)

theorem property_multiplicity_witness:
  "\<not> startsWith (lib_key lib_example_property) ''@'' \<and>
   (\<exists>t. lib_type lib_example_property = OfPropertyType t \<and> pt_types t = [0]) \<and>
   property_toNode example_scopedName lib_example_heap lib_example_property =
     PropertySignature None ''p'' True
       (UnionTypeNode [TypeReferenceNode ''Text'', ArrayTypeNode (TypeReferenceNode ''Text'')]) \<and>
   \<not> startsWith (lib_key lib_example_union_property) ''@'' \<and>
   (\<exists>t. lib_type lib_example_union_property = OfPropertyType t \<and> pt_types t = [0, 1]) \<and>
   property_toNode example_scopedName lib_example_heap lib_example_union_property =
     PropertySignature None ''q'' True
       (UnionTypeNode
          [UnionTypeNode [TypeReferenceNode ''Text'', TypeReferenceNode ''A''],
           ArrayTypeNode (UnionTypeNode [TypeReferenceNode ''Text'', TypeReferenceNode ''A''])]) \<and>
   \<not> startsWith (lib_key lib_example_never_property) ''@'' \<and>
   (\<exists>t. lib_type lib_example_never_property = OfPropertyType t \<and> pt_types t = []) \<and>
   property_toNode example_scopedName lib_example_heap lib_example_never_property =
     PropertySignature None ''r'' True
       (UnionTypeNode [KeywordTypeNode NeverKeyword, ArrayTypeNode (KeywordTypeNode NeverKeyword)]) \<and>
   startsWith ''@type'' ''@'' \<and>
   property_toNode example_scopedName lib_example_heap
     \<lparr>lib_key = ''@type'', lib_type = OfStringLiteralType (StringLiteralType ''B'')\<rparr> =
     PropertySignature None ''@type'' False (LiteralTypeNode ''B'')"
proof -
  let ?t = "\<lparr>lib_key = ''@type'', lib_type = OfStringLiteralType (StringLiteralType ''B'')\<rparr>"
  let ?h = lib_example_heap and ?n = example_scopedName
  have k: "\<not> startsWith (lib_key lib_example_property) ''@''"
    "\<not> startsWith (lib_key lib_example_union_property) ''@''"
    "\<not> startsWith (lib_key lib_example_never_property) ''@''"
    "startsWith (lib_key ?t) ''@''"
    by (simp_all add: startsWith_def lib_example_property_def lib_example_union_property_def
        lib_example_never_property_def)
  have n: "?n (lib_item (?h 0)) = ''Text''" "?n (lib_item (?h 1)) = ''A''"
    by (simp_all add: lib_example_heap_def new_Builtin_def lib_new_Class_def
        example_scopedName_def lib_example_class_def example_item_def)
  have c: "sig_comment (property_toNode ?n ?h lib_example_property) = None"
    "sig_comment (property_toNode ?n ?h lib_example_union_property) = None"
    "sig_comment (property_toNode ?n ?h lib_example_never_property) = None"
    "sig_comment (property_toNode ?n ?h ?t) = None"
    "lib_key lib_example_property = ''p''"
    "lib_key lib_example_union_property = ''q''"
    "lib_key lib_example_never_property = ''r''"
    by (simp_all add: property_toNode_def lib_example_property_def
        lib_example_union_property_def lib_example_never_property_def)
  have t: "lib_type lib_example_property =
             OfPropertyType \<lparr>pt_item = example_item ''http://schema.org/p'' [''rdf:Property''],
                              pt_comment = None, pt_types = [0]\<rparr>"
    "lib_type lib_example_union_property =
             OfPropertyType \<lparr>pt_item = example_item ''http://schema.org/q'' [''rdf:Property''],
                              pt_comment = None, pt_types = [0, 1]\<rparr>"
    "lib_type lib_example_never_property =
             OfPropertyType \<lparr>pt_item = example_item ''http://schema.org/r'' [''rdf:Property''],
                              pt_comment = None, pt_types = []\<rparr>"
    by (simp_all add: lib_example_property_def lib_example_union_property_def
        lib_example_never_property_def)
  from property_multiplicity [of ?n ?h lib_example_property]
    property_multiplicity [of ?n ?h lib_example_union_property]
    property_multiplicity [of ?n ?h lib_example_never_property]
    property_multiplicity [of ?n ?h ?t] k n c t
  show ?thesis
    by (simp add: PropertySignature.expand)
qed

section \<open>The non-enum total type\<close>

lemma set_insort_cmp: "set (insort_cmp c x ys) = insert x (set ys)"
  by (induction ys) auto

lemma set_sort_cmp: "set (sort_cmp c xs) = set xs"
  by (induction xs) (simp_all add: sort_cmp_def set_insort_cmp)

lemma length_insort_cmp: "length (insort_cmp c x ys) = Suc (length ys)"
  by (induction ys) auto

lemma length_sort_cmp: "length (sort_cmp c xs) = length xs"
  by (induction xs) (simp_all add: sort_cmp_def length_insort_cmp)

lemma nonEnumType_unfold:
  assumes "mapE (\<lambda>child. className (h child)) (sorted_children lc h this) = Inr names"
    and "toClassName (subject (h this)) = Inr n"
    and "baseName (h this) = Inr bn"
  shows "nonEnumType lc h this =
           Inr (if names = [] then TypeReferenceNode bn
                else UnionTypeNode
                       [IntersectionTypeNode
                          [TypeLiteralNode
                             [PropertySignature None ''@type'' False (LiteralTypeNode n)],
                           TypeReferenceNode bn],
                        children_union names],
                h(this := (h this)\<lparr>children := sorted_children lc h this\<rparr>))"
proof -
  let ?h1 = "h(this := (h this)\<lparr>children := sorted_children lc h this\<rparr>)"
  have c: "\<And>r. className (?h1 r) = className (h r)"
    by (simp add: className_def)
  have "baseName (?h1 this) = baseName (h this)"
    by (simp add: baseName_def instanceofBuiltin_def)
  then have b: "baseName (?h1 this) = Inr bn"
    using assms(3) by simp
  have m: "mapE (\<lambda>child. className (?h1 child)) (children (?h1 this)) = Inr names"
    using assms(1) by (simp only: c) simp
  have s: "subject (?h1 this) = subject (h this)" by simp
  show ?thesis
    using m b s assms(2)
    by (cases names rule: remdups_adj.cases)
       (simp_all add: nonEnumType_def Let_def sorted_children_def children_union_def
          del: fun_upd_apply)
qed


lemma lib_nonEnumType_value:
  "lib_nonEnumType tsn lh lthis =
     (if lib_children (lh lthis) = [] then TypeReferenceNode (lib_baseName tsn (lh lthis))
      else children_union (map (\<lambda>c. lib_className tsn (lh c)) (lib_children (lh lthis))))"
  by (cases "lib_children (lh lthis)" rule: remdups_adj.cases)
     (simp_all add: lib_nonEnumType_def Let_def children_union_def)

text \<open>
  C1, as the code has it. In src/ts/class.ts the non-enum total type of a class with
  children is the union of the intersection of the literal \<^verbatim>\<open>{"@type": name}\<close> with the
  reference to the base shape, and of the children referred to by name in sorted order;
  without children it is the reference to the base shape. In lib/toClass.ts the type of
  a class with children is the children's node alone, in insertion order; without
  children it is the reference to the base shape.
\<close>

theorem nonEnumType_shape:
  assumes "\<forall>c \<in> set (children (h this)). \<exists>m. className (h c) = Inr m"
    and "toClassName (subject (h this)) = Inr n"
    and "baseName (h this) = Inr bn"
  shows "(\<exists>names h'.
            mapE (\<lambda>c. className (h c)) (sorted_children lc h this) = Inr names \<and>
            nonEnumType lc h this =
              Inr (if children (h this) = [] then TypeReferenceNode bn
                   else UnionTypeNode
                          [IntersectionTypeNode
                             [TypeLiteralNode
                                [PropertySignature None ''@type'' False (LiteralTypeNode n)],
                              TypeReferenceNode bn],
                           children_union names], h')) \<and>
         lib_nonEnumType tsn lh lthis =
           (if lib_children (lh lthis) = [] then TypeReferenceNode (lib_baseName tsn (lh lthis))
            else children_union (map (\<lambda>c. lib_className tsn (lh c)) (lib_children (lh lthis))))"
proof -
  have "\<forall>c \<in> set (sorted_children lc h this). \<exists>m. className (h c) = Inr m"
    using assms(1) by (simp add: sorted_children_def set_sort_cmp)
  from mapE_total [OF this] obtain names where
    names: "mapE (\<lambda>c. className (h c)) (sorted_children lc h this) = Inr names"
      "length names = length (sorted_children lc h this)" by blast
  have "names = [] \<longleftrightarrow> children (h this) = []"
    using names(2) by (auto simp: sorted_children_def length_sort_cmp)
  with nonEnumType_unfold [OF names(1) assms(2,3)] names(1) show ?thesis
    by (simp add: lib_nonEnumType_value)
qed

lemma example2_names:
  "toClassName (subject (example_heap2 r)) =
     Inr (if r = 0 then ''G'' else if r = 1 then ''H'' else if r = 2 then ''I'' else ''Unused'')"
  by (simp add: example_heap2_def example_class_def example_subject_def toClassName_def
      nameFromUrl_def)

lemma example2_sorted: "sorted_children example_compare example_heap2 0 = [1, 2]"
  by (simp add: sorted_children_def sort_cmp_def example_heap2_def example_class_def
      example_subject_def CompareKeys_def)

theorem nonEnumType_shape_witness:
  "toClassName (subject (example_heap2 0)) = Inr ''G'' \<and>
   baseName (example_heap2 0) = Inr ''GBase'' \<and>
   children (example_heap2 0) = [2, 1] \<and>
   (\<exists>h'. nonEnumType example_compare example_heap2 0 =
      Inr (UnionTypeNode
             [IntersectionTypeNode
                [TypeLiteralNode [PropertySignature None ''@type'' False (LiteralTypeNode ''G'')],
                 TypeReferenceNode ''GBase''],
              ParenthesizedType (UnionTypeNode [TypeReferenceNode ''H'', TypeReferenceNode ''I''])],
           h')) \<and>
   lib_nonEnumType example_scopedName lib_example_heap 2 = TypeReferenceNode ''BBase''"
proof -
  have n: "toClassName (subject (example_heap2 0)) = Inr ''G''"
    by (simp add: example2_names)
  have b: "baseName (example_heap2 0) = Inr ''GBase''"
    by (simp add: baseName_def n) (simp add: instanceofBuiltin_def example_heap2_def example_class_def)
  have c: "\<forall>c \<in> set (children (example_heap2 0)). \<exists>m. className (example_heap2 c) = Inr m"
    by (simp add: className_def example2_names)
  have k: "children (example_heap2 0) = [2, 1]"
    by (simp add: example_heap2_def example_class_def)
  have m: "mapE (\<lambda>c. className (example_heap2 c)) (sorted_children example_compare example_heap2 0) =
             Inr [''H'', ''I'']"
    by (simp add: example2_sorted className_def example2_names)
  have l: "lib_children (lib_example_heap 2) = []"
    "lib_baseName example_scopedName (lib_example_heap 2) = ''BBase''"
    by (simp_all add: lib_example_heap_def lib_example_class_def lib_new_Class_def
        lib_baseName_def example_scopedName_def example_item_def)
  from nonEnumType_shape [OF c n b, of example_compare example_scopedName lib_example_heap 2]
  show ?thesis
    using n b k m l by (auto simp: children_union_def)
qed

theorem lib_nonEnumType_children_only:
  "lib_children (lib_example_heap 1) = [2] \<and>
   lib_nonEnumType example_scopedName lib_example_heap 1 = TypeReferenceNode ''B'' \<and>
   lib_nonEnumType example_scopedName lib_example_heap 1 \<noteq>
     UnionTypeNode
       [IntersectionTypeNode
          [TypeLiteralNode [PropertySignature None ''@type'' False (LiteralTypeNode ''A'')],
           TypeReferenceNode ''ABase''],
        TypeReferenceNode ''B'']"
  by (simp add: lib_nonEnumType_def lib_example_heap_def lib_example_class_def
      lib_new_Class_def lib_className_def example_scopedName_def example_item_def)

section \<open>Deprecation\<close>

lemma ws_upd:
  "without_supersession (h(this := c)) = (without_supersession h)(this := c\<lparr>u_supersededBy := []\<rparr>)"
  by (rule ext) (simp add: without_supersession_def)

lemma ws_fields [simp]:
  "children (without_supersession h r) = children (h r)"
  "parents (without_supersession h r) = parents (h r)"
  "u_props (without_supersession h r) = u_props (h r)"
  "u_enums (without_supersession h r) = u_enums (h r)"
  "u_comment (without_supersession h r) = u_comment (h r)"
  "subject (without_supersession h r) = subject (h r)"
  "kind (without_supersession h r) = kind (h r)"
  by (simp_all add: without_supersession_def)

lemma ws_names [simp]:
  "baseName (without_supersession h r) = baseName (h r)"
  "className (without_supersession h r) = className (h r)"
  "enumName (without_supersession h r) = enumName (h r)"
  "instanceofBuiltin (without_supersession h r) = instanceofBuiltin (h r)"
  by (simp_all add: baseName_def className_def enumName_def instanceofBuiltin_def)

lemma ws_isLeaf: "isLeaf d (without_supersession h') this = isLeaf d h' this"
proof -
  have "aliasesBuiltin d (without_supersession h') this = aliasesBuiltin d h' this"
    by (rule aliasesBuiltin_cong) simp_all
  then show ?thesis by (simp add: isLeaf_def)
qed

lemma ws_properties:
  "properties lc d (without_supersession h) this =
     (case properties lc d h this of
        Inl e \<Rightarrow> Inl e
      | Inr (ps, h1) \<Rightarrow> Inr (ps, without_supersession h1))"
proof -
  let ?c = "(h this)\<lparr>u_props := sort_cmp (\<lambda>a b. CompareKeys lc (key a) (key b)) (u_props (h this))\<rparr>"
  have u: "(without_supersession h)(this := (without_supersession h this)\<lparr>u_props :=
             sort_cmp (\<lambda>a b. CompareKeys lc (key a) (key b)) (u_props (without_supersession h this))\<rparr>) =
           without_supersession (h(this := ?c))"
    by (rule ext) (simp add: without_supersession_def)
  show ?thesis
    unfolding properties_def Let_def u ws_isLeaf
    by (simp split: sum.splits del: fun_upd_apply)
qed

lemma ws_baseNode:
  "baseNode lc d skip (without_supersession h) this =
     (case baseNode lc d skip h this of
        Inl e \<Rightarrow> Inl e
      | Inr (node, h1) \<Rightarrow> Inr (node, without_supersession h1))"
  unfolding baseNode_def ws_properties
  by (auto split: sum.splits simp: Let_def)

lemma ws_nonEnumType:
  "nonEnumType lc (without_supersession h) this =
     (case nonEnumType lc h this of
        Inl e \<Rightarrow> Inl e
      | Inr (node, h1) \<Rightarrow> Inr (node, without_supersession h1))"
proof -
  let ?c = "(h this)\<lparr>children := sort_cmp (\<lambda>a b. CompareKeys lc (subject (h a)) (subject (h b))) (children (h this))\<rparr>"
  have u: "(without_supersession h)(this := (without_supersession h this)\<lparr>children :=
             sort_cmp (\<lambda>a b. CompareKeys lc (subject (without_supersession h a))
                                 (subject (without_supersession h b)))
               (children (without_supersession h this))\<rparr>) =
           without_supersession (h(this := ?c))"
    by (rule ext) (simp add: without_supersession_def)
  show ?thesis
    unfolding nonEnumType_def Let_def u
    by (simp split: sum.splits option.splits del: fun_upd_apply)
qed


lemma ws_totalType:
  "totalType lc (without_supersession h) this =
     (case totalType lc h this of
        Inl e \<Rightarrow> Inl e
      | Inr (node, h1) \<Rightarrow> Inr (node, without_supersession h1))"
  unfolding totalType_def ws_nonEnumType
  by (auto split: sum.splits simp: Let_def)

lemma ws_enumDecl:
  "enumDecl lc (without_supersession h) this =
     (case enumDecl lc h this of
        Inl e \<Rightarrow> Inl e
      | Inr (ed, h1) \<Rightarrow> Inr (ed, without_supersession h1))"
proof -
  let ?c = "(h this)\<lparr>u_enums := sort_cmp (\<lambda>a b. CompareKeys lc (enum_value a) (enum_value b)) (u_enums (h this))\<rparr>"
  have u: "(without_supersession h)(this := (without_supersession h this)\<lparr>u_enums :=
             sort_cmp (\<lambda>a b. CompareKeys lc (enum_value a) (enum_value b))
               (u_enums (without_supersession h this))\<rparr>) =
           without_supersession (h(this := ?c))"
    by (rule ext) (simp add: without_supersession_def)
  show ?thesis
    unfolding enumDecl_def Let_def u
    by (simp split: sum.splits del: fun_upd_apply)
qed

lemma ws_baseDecl:
  "baseDecl lc d skip (without_supersession h) this =
     (case baseDecl lc d skip h this of
        Inl e \<Rightarrow> Inl e
      | Inr (bd, h1) \<Rightarrow> Inr (bd, without_supersession h1))"
  unfolding baseDecl_def ws_baseNode
  by (auto split: sum.splits)

lemma comment_not_deprecated:
  "comment (without_supersession h) this = Inr (u_comment (h this))"
  by (simp add: comment_def deprecated_class_def) (simp add: without_supersession_def)

lemma comment_deprecated:
  assumes "u_supersededBy (h this) \<noteq> []"
    and "mapE (\<lambda>c. className (h c)) (u_supersededBy (h this)) = Inr names"
  shows "comment h this =
           Inr (Some ((case u_comment (h this) of
                         None \<Rightarrow> []
                       | Some c \<Rightarrow> if c \<noteq> [] then c @ [CHR 0x0A] else []) @
                      deprecation_notice names))"
  using assms
  by (simp add: comment_def deprecated_class_def deprecation_notice_def Let_def
      split: option.splits)


lemma nonEnumType_heap:
  "nonEnumType lc h this = Inr (t, h1) \<Longrightarrow>
   h1 = h(this := (h this)\<lparr>children := sorted_children lc h this\<rparr>)"
  by (auto simp: nonEnumType_def Let_def sorted_children_def split: sum.splits option.splits
      if_splits)

lemma totalType_heap:
  "totalType lc h this = Inr (t, h1) \<Longrightarrow>
   h1 = h(this := (h this)\<lparr>children := sorted_children lc h this\<rparr>)"
  by (auto simp: totalType_def Let_def split: sum.splits if_splits dest: nonEnumType_heap)

lemma comment_children_upd:
  "comment (h(this := (h this)\<lparr>children := cs\<rparr>)) this = comment h this"
proof -
  have "(\<lambda>c. className ((h(this := (h this)\<lparr>children := cs\<rparr>)) c)) = (\<lambda>c. className (h c))"
    by (rule ext) (simp add: className_def)
  then show ?thesis
    by (simp add: comment_def deprecated_class_def Let_def split: sum.splits)
qed

lemma toNode_frame:
  assumes "kind (h this) = ClassK" and "toNode lc d skip h this = Inr (stmts, h1)"
  shows "\<exists>c ds cn tv.
           comment h this = Inr c \<and>
           stmts = ds @ [TypeAliasDeclaration c True cn tv] \<and>
           toNode lc d skip (without_supersession h) this =
             Inr (ds @ [TypeAliasDeclaration (u_comment (h this)) True cn tv],
                  without_supersession h1)"
proof -
  from assms have "Class_toNode lc d skip h this = Inr (stmts, h1)"
    by (simp add: toNode_def)
  then obtain tv h1' c cn ed h2 bd where
    tt: "totalType lc h this = Inr (tv, h1')" and
    cm: "comment h1' this = Inr c" and
    cn: "className (h1' this) = Inr cn" and
    en: "enumDecl lc h1' this = Inr (ed, h2)" and
    bd: "baseDecl lc d skip h2 this = Inr (bd, h1)" and
    st: "stmts = arrayOf [ed, Some bd, Some (TypeAliasDeclaration c True cn tv)]"
    by (auto simp: Class_toNode_def split: sum.splits prod.splits)
  note hp = totalType_heap [OF tt]
  have c0: "comment h this = Inr c"
    using cm unfolding hp by (simp only: comment_children_upd)
  have uc: "u_comment (h1' this) = u_comment (h this)"
    unfolding hp by simp
  let ?ds = "arrayOf [ed, Some bd]"
  have s1: "stmts = ?ds @ [TypeAliasDeclaration c True cn tv]"
    by (simp add: st arrayOf_def)
  have "toNode lc d skip (without_supersession h) this =
          Inr (?ds @ [TypeAliasDeclaration (u_comment (h this)) True cn tv],
               without_supersession h1)"
    using assms(1)
    by (simp add: toNode_def Class_toNode_def ws_totalType tt comment_not_deprecated uc cn
        ws_enumDecl en ws_baseDecl bd arrayOf_def)
  with c0 s1 show ?thesis by blast
qed

lemma add_supersededBy:
  assumes "getComment v = None" and "getSubClassOf v = None"
    and "isSupersededBy (Predicate v)" and "classMap (toString (Object v)) = Some s"
  shows "add getComment getSubClassOf isSupersededBy h this v classMap =
           Inr (True, h(this := (h this)\<lparr>u_supersededBy := u_supersededBy (h this) @ [s]\<rparr>))"
  using assms by (simp add: add_def)

text \<open>
  C8. A class with at least one supersession target whose names resolve is deprecated,
  and its comment is its own comment, if it has one, followed by the notice
  \<^verbatim>\<open>@deprecated Use N1 or N2 ... instead.\<close> that names the targets. The comment is the
  only trace of the supersession facts: \<^verbatim>\<open>add\<close> of a superseded-by value changes the
  supersession list of the class and nothing else in the heap; and with the supersession
  facts taken out of the heap, \<^verbatim>\<open>properties\<close>, \<^verbatim>\<open>baseNode\<close> and \<^verbatim>\<open>nonEnumType\<close> give
  the same results, the parents, children and properties of every class are the same, and
  \<^verbatim>\<open>toNode\<close> of a regular class emits the same statements but for the comment of the
  class's alias.
\<close>

theorem deprecation_only_annotates:
  assumes "u_supersededBy (h this) \<noteq> []"
    and "mapE (\<lambda>c. className (h c)) (u_supersededBy (h this)) = Inr names"
  shows "deprecated_class (h this) \<and>
         comment h this =
           Inr (Some ((case u_comment (h this) of
                         None \<Rightarrow> []
                       | Some c \<Rightarrow> if c \<noteq> [] then c @ [CHR 0x0A] else []) @
                      deprecation_notice names)) \<and>
         (\<forall>r. children (without_supersession h r) = children (h r) \<and>
              parents (without_supersession h r) = parents (h r) \<and>
              u_props (without_supersession h r) = u_props (h r)) \<and>
         map_sum id fst (properties lc d (without_supersession h) this) =
           map_sum id fst (properties lc d h this) \<and>
         map_sum id fst (baseNode lc d skip (without_supersession h) this) =
           map_sum id fst (baseNode lc d skip h this) \<and>
         map_sum id fst (nonEnumType lc (without_supersession h) this) =
           map_sum id fst (nonEnumType lc h this) \<and>
         (\<forall>stmts h1. kind (h this) = ClassK \<and> toNode lc d skip h this = Inr (stmts, h1) \<longrightarrow>
            (\<exists>ds cn tv.
               stmts = ds @ [TypeAliasDeclaration
                               (Some ((case u_comment (h this) of
                                         None \<Rightarrow> []
                                       | Some c \<Rightarrow> if c \<noteq> [] then c @ [CHR 0x0A] else []) @
                                      deprecation_notice names)) True cn tv] \<and>
               toNode lc d skip (without_supersession h) this =
                 Inr (ds @ [TypeAliasDeclaration (u_comment (h this)) True cn tv],
                      without_supersession h1))) \<and>
         (\<forall>v s. getComment v = None \<and> getSubClassOf v = None \<and> isSupersededBy (Predicate v) \<and>
                classMap (toString (Object v)) = Some s \<longrightarrow>
            (\<exists>h'. add getComment getSubClassOf isSupersededBy h this v classMap = Inr (True, h') \<and>
                  u_supersededBy (h' this) = u_supersededBy (h this) @ [s] \<and>
                  without_supersession h' = without_supersession h))"
proof -
  have a: "deprecated_class (h this)"
    using assms(1) by (simp add: deprecated_class_def)
  note b = comment_deprecated [OF assms]
  have c: "\<forall>r. children (without_supersession h r) = children (h r) \<and>
              parents (without_supersession h r) = parents (h r) \<and>
              u_props (without_supersession h r) = u_props (h r)"
    by simp
  have d: "map_sum id fst (properties lc d (without_supersession h) this) =
             map_sum id fst (properties lc d h this)"
    by (simp add: ws_properties split: sum.splits)
  have e: "map_sum id fst (baseNode lc d skip (without_supersession h) this) =
             map_sum id fst (baseNode lc d skip h this)"
    by (simp add: ws_baseNode split: sum.splits)
  have f: "map_sum id fst (nonEnumType lc (without_supersession h) this) =
             map_sum id fst (nonEnumType lc h this)"
    by (simp add: ws_nonEnumType split: sum.splits)
  have g: "\<forall>stmts h1. kind (h this) = ClassK \<and> toNode lc d skip h this = Inr (stmts, h1) \<longrightarrow>
            (\<exists>ds cn tv.
               stmts = ds @ [TypeAliasDeclaration
                               (Some ((case u_comment (h this) of
                                         None \<Rightarrow> []
                                       | Some c \<Rightarrow> if c \<noteq> [] then c @ [CHR 0x0A] else []) @
                                      deprecation_notice names)) True cn tv] \<and>
               toNode lc d skip (without_supersession h) this =
                 Inr (ds @ [TypeAliasDeclaration (u_comment (h this)) True cn tv],
                      without_supersession h1))"
    using toNode_frame [where h = h and this = this and lc = lc and d = d and skip = skip] b
    by fastforce
  have i: "\<forall>v s. getComment v = None \<and> getSubClassOf v = None \<and> isSupersededBy (Predicate v) \<and>
                classMap (toString (Object v)) = Some s \<longrightarrow>
            (\<exists>h'. add getComment getSubClassOf isSupersededBy h this v classMap = Inr (True, h') \<and>
                  u_supersededBy (h' this) = u_supersededBy (h this) @ [s] \<and>
                  without_supersession h' = without_supersession h)"
  proof (intro allI impI)
    fix v s
    assume *: "getComment v = None \<and> getSubClassOf v = None \<and> isSupersededBy (Predicate v) \<and>
                classMap (toString (Object v)) = Some s"
    let ?h' = "h(this := (h this)\<lparr>u_supersededBy := u_supersededBy (h this) @ [s]\<rparr>)"
    have "add getComment getSubClassOf isSupersededBy h this v classMap = Inr (True, ?h')"
      using * by (simp add: add_supersededBy)
    moreover have "without_supersession ?h' = without_supersession h"
      by (rule ext) (simp add: without_supersession_def)
    ultimately show "\<exists>h'. add getComment getSubClassOf isSupersededBy h this v classMap = Inr (True, h') \<and>
                  u_supersededBy (h' this) = u_supersededBy (h this) @ [s] \<and>
                  without_supersession h' = without_supersession h"
      by simp
  qed
  from a b c d e f g i show ?thesis by blast
qed


theorem deprecation_only_annotates_witness:
  "u_supersededBy (example_heap3 0) = [1, 2] \<and>
   mapE (\<lambda>c. className (example_heap3 c)) (u_supersededBy (example_heap3 0)) =
     Inr [''N'', ''O''] \<and>
   deprecated_class (example_heap3 0) \<and>
   comment example_heap3 0 =
     Inr (Some (''Old.'' @ [CHR 0x0A] @ ''@deprecated Use N or O instead.'')) \<and>
   comment (without_supersession example_heap3) 0 = Inr (Some ''Old.'') \<and>
   u_props (without_supersession example_heap3 0) = u_props (example_heap3 0) \<and>
   map_sum id fst (baseNode example_compare 2 False (without_supersession example_heap3) 0) =
     map_sum id fst (baseNode example_compare 2 False example_heap3 0)"
proof -
  have s: "u_supersededBy (example_heap3 0) = [1, 2]"
    "u_supersededBy (example_heap3 0) \<noteq> []"
    "u_comment (example_heap3 0) = Some ''Old.''"
    by (simp_all add: example_heap3_def example_class_def)
  have m: "mapE (\<lambda>c. className (example_heap3 c)) (u_supersededBy (example_heap3 0)) =
             Inr [''N'', ''O'']"
    by (simp add: s(1))
       (simp add: className_def toClassName_def nameFromUrl_def example_heap3_def
          example_class_def example_subject_def)
  have c: "comment (without_supersession example_heap3) 0 = Inr (Some ''Old.'')"
    by (simp add: comment_not_deprecated s)
  from deprecation_only_annotates [OF s(2) m, of example_compare 2 False]
  show ?thesis
    using s m c by (simp add: deprecation_notice_def)
qed

section \<open>The order of classes\<close>

lemma example_compare_flip: "(example_compare x y < 0) = (example_compare y x > 0)"
  by (induction x y rule: example_compare.induct) auto

lemma example_compare_Cons_le:
  "example_compare (x # xs) (y # ys) \<le> 0 \<longleftrightarrow>
     (of_char x :: nat) < of_char y \<or>
     (of_char x :: nat) = of_char y \<and> example_compare xs ys \<le> 0"
  by auto

lemma example_compare_trans:
  "example_compare x y \<le> 0 \<Longrightarrow> example_compare y z \<le> 0 \<Longrightarrow> example_compare x z \<le> 0"
proof (induction x y arbitrary: z rule: example_compare.induct)
  case 1
  then show ?case by simp
next
  case (2 y ys)
  then show ?case by (cases z) auto
next
  case (3 x xs)
  then show ?case by simp
next
  case (4 x xs y ys)
  show ?case
  proof (cases z)
    case Nil
    with "4.prems" show ?thesis by simp
  next
    case (Cons w ws)
    from "4.prems"(1) consider "(of_char x :: nat) < of_char y"
      | "(of_char x :: nat) = of_char y" "example_compare xs ys \<le> 0"
      unfolding example_compare_Cons_le by blast
    then show ?thesis
    proof cases
      case 1
      from "4.prems"(2) have "(of_char y :: nat) \<le> of_char w"
        unfolding Cons example_compare_Cons_le by linarith
      with 1 have "(of_char x :: nat) < of_char w" by linarith
      then show ?thesis
        unfolding Cons example_compare_Cons_le by blast
    next
      case 2
      from "4.prems"(2) consider "(of_char y :: nat) < of_char w"
        | "(of_char y :: nat) = of_char w" "example_compare ys ws \<le> 0"
        unfolding Cons example_compare_Cons_le by blast
      then show ?thesis
      proof cases
        case 1
        with 2(1) have "(of_char x :: nat) < of_char w" by linarith
        then show ?thesis
          unfolding Cons example_compare_Cons_le by blast
      next
        case w: 2
        have "example_compare xs ws \<le> 0"
          using "4.IH" [of ws] 2 w by simp
        with 2(1) w(1) show ?thesis
          unfolding Cons example_compare_Cons_le by simp
      qed
    qed
  qed
qed

lemma example_comparator: "comparator example_compare"
  unfolding comparator_def using example_compare_flip example_compare_trans by blast

lemma comparator_flip: "comparator lc \<Longrightarrow> (lc x y < 0) = (lc y x > 0)"
  by (simp add: comparator_def)

lemma comparator_trans: "comparator lc \<Longrightarrow> lc x y \<le> 0 \<Longrightarrow> lc y z \<le> 0 \<Longrightarrow> lc x z \<le> 0"
  unfolding comparator_def by blast

lemma comparator_zero: "comparator lc \<Longrightarrow> (lc x y = 0) = (lc y x = 0)"
  using comparator_flip [of lc x y] comparator_flip [of lc y x] by linarith

lemma comparator_strict_trans1:
  assumes "comparator lc" and "lc x y < 0" and "lc y z \<le> 0"
  shows "lc x z < 0"
proof (rule ccontr)
  assume "\<not> lc x z < 0"
  then have "lc z x \<le> 0"
    using comparator_flip [OF assms(1), of z x] comparator_zero [OF assms(1), of x z] by linarith
  with assms(3) have "lc y x \<le> 0"
    using comparator_trans [OF assms(1)] by blast
  with assms(2) show False
    using comparator_flip [OF assms(1), of x y] by linarith
qed

lemma comparator_strict_trans2:
  assumes "comparator lc" and "lc x y \<le> 0" and "lc y z < 0"
  shows "lc x z < 0"
proof (rule ccontr)
  assume "\<not> lc x z < 0"
  then have "lc z x \<le> 0"
    using comparator_flip [OF assms(1), of z x] comparator_zero [OF assms(1), of x z] by linarith
  with assms(2) have "lc z y \<le> 0"
    using comparator_trans [OF assms(1)] by blast
  with assms(3) show False
    using comparator_flip [OF assms(1), of y z] by linarith
qed

lemma CompareKeys_le:
  "CompareKeys lc a b \<le> 0 \<longleftrightarrow>
     lc (toHumanString a) (toHumanString b) < 0 \<or>
     lc (toHumanString a) (toHumanString b) = 0 \<and> lc (toString a) (toString b) \<le> 0"
  by (auto simp: CompareKeys_def Let_def)

lemma CompareKeys_flip:
  assumes "comparator lc"
  shows "(CompareKeys lc a b < 0) = (CompareKeys lc b a > 0)"
  using comparator_flip [OF assms, of "toHumanString a" "toHumanString b"]
    comparator_flip [OF assms, of "toHumanString b" "toHumanString a"]
    comparator_flip [OF assms, of "toString a" "toString b"]
  by (auto simp: CompareKeys_def Let_def)

lemma CompareKeys_trans:
  assumes c: "comparator lc" and "CompareKeys lc a b \<le> 0" and "CompareKeys lc b k \<le> 0"
  shows "CompareKeys lc a k \<le> 0"
proof -
  let ?n = "\<lambda>x y. lc (toHumanString x) (toHumanString y)"
  let ?i = "\<lambda>x y. lc (toString x) (toString y)"
  from assms(2) consider "?n a b < 0" | "?n a b = 0" "?i a b \<le> 0"
    by (auto simp: CompareKeys_le)
  then show ?thesis
  proof cases
    case 1
    from assms(3) have "?n b k \<le> 0" by (auto simp: CompareKeys_le)
    from comparator_strict_trans1 [OF c 1 this] show ?thesis
      by (simp add: CompareKeys_le)
  next
    case 2
    from assms(3) consider "?n b k < 0" | "?n b k = 0" "?i b k \<le> 0"
      by (auto simp: CompareKeys_le)
    then show ?thesis
    proof cases
      case 1
      from 2(1) have "?n a b \<le> 0" by simp
      from comparator_strict_trans2 [OF c this 1] show ?thesis
        by (simp add: CompareKeys_le)
    next
      case b: 2
      have "?n a k \<le> 0"
        using comparator_trans [OF c, of "toHumanString a" "toHumanString b" "toHumanString k"]
          2(1) b(1) by simp
      moreover have "?i a k \<le> 0"
        using comparator_trans [OF c, of "toString a" "toString b" "toString k"] 2(2) b(2)
        by simp
      ultimately show ?thesis
        by (auto simp: CompareKeys_le)
    qed
  qed
qed


lemma Sort_flip:
  assumes "comparator lc"
  shows "(Sort lc a b < 0) = (Sort lc b a > 0)"
  using CompareKeys_flip [OF assms, of "subject a" "subject b"]
    comparator_flip [OF assms, of "toHumanString (subject a)" "toHumanString (subject b)"]
  by (simp add: Sort_def)

lemma Sort_trans:
  assumes c: "comparator lc" and ab: "Sort lc a b \<le> 0" and bk: "Sort lc b k \<le> 0"
  shows "Sort lc a k \<le> 0"
proof (cases "instanceofBuiltin a")
  case a: True
  show ?thesis
  proof (cases "instanceofBuiltin k")
    case k: True
    with bk have b: "instanceofBuiltin b"
      by (auto simp: Sort_def split: if_splits)
    from a b k ab bk show ?thesis
      using comparator_trans [OF c, of "toHumanString (subject a)"
          "toHumanString (subject b)" "toHumanString (subject k)"]
      by (simp add: Sort_def)
  next
    case False
    with a show ?thesis by (simp add: Sort_def)
  qed
next
  case a: False
  with ab have b: "\<not> instanceofBuiltin b"
    by (auto simp: Sort_def split: if_splits)
  with bk have k: "\<not> instanceofBuiltin k"
    by (auto simp: Sort_def split: if_splits)
  from a b k ab bk show ?thesis
    using CompareKeys_trans [OF c, of "subject a" "subject b" "subject k"]
    by (simp add: Sort_def)
qed

text \<open>
  C6, as the code has it. \<^verbatim>\<open>Sort\<close> puts every \<^verbatim>\<open>Builtin\<close> strictly before every regular
  class. Two regular classes are compared by their human-readable names and, when the
  names compare equal, by their identifier strings. Two built-ins are compared by their
  human-readable names only. When \<^verbatim>\<open>localeCompare\<close> is a comparator, \<^verbatim>\<open>Sort\<close> is a total
  preorder on all classes: the sign flips with the arguments and "not after" is
  transitive.
\<close>

theorem Sort_order:
  assumes "comparator lc"
  shows "(instanceofBuiltin a \<and> \<not> instanceofBuiltin b \<longrightarrow> Sort lc a b < 0 \<and> Sort lc b a > 0) \<and>
         (\<not> instanceofBuiltin a \<and> \<not> instanceofBuiltin b \<longrightarrow>
            Sort lc a b =
              (if lc (toHumanString (subject a)) (toHumanString (subject b)) \<noteq> 0
               then lc (toHumanString (subject a)) (toHumanString (subject b))
               else lc (toString (subject a)) (toString (subject b)))) \<and>
         (instanceofBuiltin a \<and> instanceofBuiltin b \<longrightarrow>
            Sort lc a b = lc (toHumanString (subject a)) (toHumanString (subject b))) \<and>
         ((Sort lc a b < 0) = (Sort lc b a > 0)) \<and>
         (Sort lc a b \<le> 0 \<and> Sort lc b k \<le> 0 \<longrightarrow> Sort lc a k \<le> 0)"
  using Sort_flip [OF assms, of a b] Sort_trans [OF assms, of a b k]
  by (simp add: Sort_def CompareKeys_def Let_def)

theorem Sort_order_witness:
  "comparator example_compare \<and>
   instanceofBuiltin (example_heap 0) \<and> \<not> instanceofBuiltin (example_heap 1) \<and>
   \<not> instanceofBuiltin (example_heap 2) \<and>
   Sort example_compare (example_heap 0) (example_heap 1) < 0 \<and>
   Sort example_compare (example_heap 1) (example_heap 0) > 0 \<and>
   Sort example_compare (example_heap 1) (example_heap 2) = - 1 \<and>
   Sort example_compare (example_heap 0) (example_heap 2) \<le> 0"
proof -
  have b: "instanceofBuiltin (example_heap 0)" "\<not> instanceofBuiltin (example_heap 1)"
    "\<not> instanceofBuiltin (example_heap 2)"
    by (simp_all add: instanceofBuiltin_def example_heap_def example_class_def)
  have s: "Sort example_compare (example_heap 1) (example_heap 2) = - 1"
    by (simp add: Sort_def b CompareKeys_def)
       (simp add: example_heap_def example_class_def example_subject_def)
  from Sort_order [OF example_comparator, of "example_heap 0" "example_heap 1" "example_heap 2"]
  show ?thesis
    using b s example_comparator by simp
qed

theorem Sort_builtins_without_tie_break:
  "instanceofBuiltin example_builtin_http \<and> instanceofBuiltin example_builtin_https \<and>
   toHumanString (subject example_builtin_http) = toHumanString (subject example_builtin_https) \<and>
   toString (subject example_builtin_http) \<noteq> toString (subject example_builtin_https) \<and>
   example_compare (toString (subject example_builtin_http))
     (toString (subject example_builtin_https)) = - 1 \<and>
   Sort example_compare example_builtin_http example_builtin_https = 0 \<and>
   Sort example_compare example_builtin_https example_builtin_http = 0"
  by (simp add: Sort_def instanceofBuiltin_def example_builtin_http_def
      example_builtin_https_def example_class_def example_subject_def)

section \<open>Resolution of class-graph edges\<close>

lemma add_subClassOf_unresolved:
  assumes "getComment v = None" and "getSubClassOf v = Some s"
    and "classMap (toString s) = None"
  shows "\<exists>msg. add getComment getSubClassOf isSupersededBy h this v classMap = Inl (Error msg)"
  using assms by (simp add: add_def)

lemma add_subClassOf_resolved:
  assumes "getComment v = None" and "getSubClassOf v = Some s"
    and "classMap (toString s) = Some parentClass"
  shows "\<exists>h'. add getComment getSubClassOf isSupersededBy h this v classMap = Inr (True, h') \<and>
           parents (h' this) = parents (h this) @ [parentClass] \<and>
           children (h' parentClass) = children (h parentClass) @ [this] \<and>
           (\<forall>r. r \<noteq> this \<longrightarrow> parents (h' r) = parents (h r)) \<and>
           (\<forall>r. r \<noteq> parentClass \<longrightarrow> children (h' r) = children (h r))"
  using assms by (simp add: add_def Let_def)

lemma add_supersededBy_unresolved:
  assumes "getComment v = None" and "getSubClassOf v = None"
    and "isSupersededBy (Predicate v)" and "classMap (toString (Object v)) = None"
  shows "\<exists>msg. add getComment getSubClassOf isSupersededBy h this v classMap = Inl (Error msg)"
  using assms by (simp add: add_def)

lemma lib_init_for_first_only:
  "lib_init_for h this classMap (parentId # rest) = lib_init_for h this classMap [parentId]"
  by simp

lemma lib_init_first_unresolved:
  assumes "GetSubClassOf (lib_item (h this)) = parentId # rest"
    and "map_get classMap parentId = None"
  shows "\<exists>msg. lib_init lang h this classMap = Inl (Error msg)"
  using assms by (simp add: lib_init_def Let_def)

text \<open>
  C3. \<^verbatim>\<open>Class.init\<close> of lib/toClass.ts reads the first parent only. The class \<open>C\<close> is a
  subclass of \<open>A\<close> and of \<open>Missing\<close>, and \<open>Missing\<close> is not in the registry: the classes
  are built without an error, \<open>C\<close> has the one parent \<open>A\<close>, and the run writes its output
  to the end. The class \<open>D\<close> is a subclass of \<open>A\<close> and of \<open>B\<close>, both in the registry: \<open>D\<close>
  has the one parent \<open>A\<close>, and \<open>B\<close> has no child.
\<close>

theorem init_reads_first_parent_only:
  "GetSubClassOf item_C = [''http://schema.org/A'', ''http://schema.org/Missing''] \<and>
   (case ProcessClasses ''en'' [item_A, item_C] of
      Inl e \<Rightarrow> False
    | Inr (classes, h) \<Rightarrow>
        map_get classes ''http://schema.org/Missing'' = None \<and>
        map_get classes ''http://schema.org/A'' = Some 6 \<and>
        map_get classes ''http://schema.org/C'' = Some 7 \<and>
        lib_parents (h 7) = [6]) \<and>
   snd (main example_scopedName example_scopedName ''en'' 5
          [Item item_A, Item item_C, Item item_p]) = None \<and>
   GetSubClassOf item_D = [''http://schema.org/A'', ''http://schema.org/B''] \<and>
   (case ProcessClasses ''en'' [item_A, item_B, item_D] of
      Inl e \<Rightarrow> False
    | Inr (classes, h) \<Rightarrow>
        map_get classes ''http://schema.org/B'' = Some 7 \<and>
        map_get classes ''http://schema.org/D'' = Some 8 \<and>
        lib_parents (h 8) = [6] \<and> lib_children (h 7) = [])"
  by code_simp


lemma main_error_before_output:
  "ProcessClasses lang (map_values (group graph [])) = Inl e \<Longrightarrow>
   main tsn temn lang d graph = ([], Some e)"
  by (simp add: main_def Let_def)

section \<open>Owners of enumeration members\<close>


lemma HasEnumType_iff:
  "HasEnumType types \<longleftrightarrow>
     (\<exists>t \<in> set types. \<not> (IsClassType t \<or> IsPropertyType t \<or> IsDataType t))"
  by (induction types) auto

text \<open>
  C4. The topic \<open>v\<close> has the type tags \<^verbatim>\<open>rdf:Property\<close> and \<open>A\<close>, and \<open>A\<close> is a class of
  the registry. \<^verbatim>\<open>HasEnumType\<close> skips the property tag and takes \<open>v\<close> for an enumeration
  member, whose first tag that is none of the three well-known ones is \<open>A\<close>. The loop of
  \<^verbatim>\<open>EnumValue.init\<close> skips the class and data type tags only: it looks the property tag
  up in the registry and the run ends with an error, nothing written and no member
  attached to \<open>A\<close>.
\<close>

theorem enum_owner_after_property_tag:
  "GetTypes item_v = Inr [''rdf:Property'', ''http://schema.org/A''] \<and>
   HasEnumType [''rdf:Property'', ''http://schema.org/A''] \<and>
   IsPropertyType ''rdf:Property'' \<and>
   \<not> (IsClassType ''http://schema.org/A'' \<or> IsPropertyType ''http://schema.org/A'' \<or>
      IsDataType ''http://schema.org/A'') \<and>
   (case ProcessClasses ''en'' [item_A, item_p, item_v] of
      Inl e \<Rightarrow> False
    | Inr (classes, h) \<Rightarrow>
        map_get classes ''http://schema.org/A'' = Some 6 \<and>
        map_get classes ''rdf:Property'' = None \<and>
        (case enum_init h \<lparr>ev_item = item_v, ev_comment = None\<rparr> classes of
           Inl e \<Rightarrow> e = Error ''Couldn't find rdf:Property in classes.''
         | Inr r \<Rightarrow> False)) \<and>
   main example_scopedName example_scopedName ''en'' 5
     [Item item_A, Item item_p, Item item_v] =
     ([], Some (Error ''Couldn't find rdf:Property in classes.''))"
  by code_simp

section \<open>The order of emission\<close>





























































end
